theory Spec2Isabelle
  imports Main "HOL-Library.AList" "HOL-Library.Sublist"
begin

section \<open>Python values and exceptions\<close>

text \<open>
  The script \<^verbatim>\<open>estimations.py\<close> is a driver around external collaborators
  (\<^verbatim>\<open>structure_data\<close>, \<^verbatim>\<open>pickle\<close>, \<^verbatim>\<open>networkx\<close>, \<^verbatim>\<open>dowhy\<close>).
  Every call into them can raise.  What is raised is a \<^verbatim>\<open>BaseException\<close>; the classes
  that matter to the script are \<^verbatim>\<open>Exception\<close> (with all its subclasses, told apart
  here by a cause string) and the three \<^verbatim>\<open>BaseException\<close> subclasses that are not
  \<^verbatim>\<open>Exception\<close>s.
\<close>

datatype exn =
    Exception string
  | KeyboardInterrupt
  | SystemExit nat
  | GeneratorExit

text \<open>\<^verbatim>\<open>isinstance(e, Exception)\<close>, the test made by \<^verbatim>\<open>except Exception:\<close>.\<close>

fun is_Exception :: "exn \<Rightarrow> bool" where
  "is_Exception (Exception cause) = True"
| "is_Exception KeyboardInterrupt = False"
| "is_Exception (SystemExit code) = False"
| "is_Exception GeneratorExit = False"

text \<open>
  A Python \<^verbatim>\<open>float\<close>: a finite value is sign, mantissa and binary exponent
  (\<open>PyFinite s m e\<close> is \<open>m * 2 ^ e\<close>, negated when \<open>s\<close> holds, so every IEEE double is
  covered, negative zero included); the other values are the two infinities and not-a-number.
\<close>

datatype pyfloat =
    PyFinite bool nat int
  | PyInf bool
  | PyNaN

section \<open>The external collaborators\<close>

text \<open>
  Python objects handed around by the script (the data frame, the graph, the open file,
  the model, the estimand, the estimate, its \<^verbatim>\<open>value\<close>) are opaque references of type
  \<open>'o\<close>; whatever they refer to, together with the file system and the libraries' own
  state, is the world \<open>'w\<close>.  Each collaborator takes its arguments and the world and
  gives back either the exception it raised or its result, and the world it left.
\<close>

record ('o, 'w) lib =
  choose_columns :: "'w \<Rightarrow> (exn + 'o) \<times> 'w"
  preprocess_data :: "'o \<Rightarrow> pyfloat \<Rightarrow> string \<Rightarrow> string \<Rightarrow> string \<Rightarrow> 'w \<Rightarrow> (exn + 'o) \<times> 'w"
  open_rb :: "string \<Rightarrow> 'w \<Rightarrow> (exn + 'o) \<times> 'w"
  pickle_load :: "'o \<Rightarrow> 'w \<Rightarrow> (exn + 'o) \<times> 'w"
  file_exit :: "'o \<Rightarrow> 'w \<Rightarrow> (exn + unit) \<times> 'w"
  to_pydot :: "'o \<Rightarrow> 'w \<Rightarrow> (exn + 'o) \<times> 'w"
  to_string :: "'o \<Rightarrow> 'w \<Rightarrow> (exn + string) \<times> 'w"
  CausalModel :: "'o \<Rightarrow> string \<Rightarrow> string \<Rightarrow> string \<Rightarrow> 'w \<Rightarrow> (exn + 'o) \<times> 'w"
  identify_effect :: "'o \<Rightarrow> 'w \<Rightarrow> (exn + 'o) \<times> 'w"
  estimate_effect :: "'o \<Rightarrow> 'o \<Rightarrow> string \<Rightarrow> 'w \<Rightarrow> (exn + 'o) \<times> 'w"
  value_attr :: "'o \<Rightarrow> 'w \<Rightarrow> (exn + 'o) \<times> 'w"
  float_conv :: "'o \<Rightarrow> 'w \<Rightarrow> (exn + pyfloat) \<times> 'w"

text \<open>The calls the script makes, with the arguments it passes.\<close>

datatype 'o extcall =
    ChooseColumns
  | PreprocessData 'o pyfloat string string string
  | OpenRb string
  | PickleLoad 'o
  | FileExit 'o
  | ToPydot 'o
  | ToString 'o
  | CausalModelInit 'o string string string
  | IdentifyEffect 'o
  | EstimateEffect 'o 'o string
  | ValueAttr 'o
  | FloatConv 'o

text \<open>
  The state of a run: the world, the log of finished external calls (each with the
  exception it raised, if any) and the lines written to standard output.
\<close>

record ('o, 'w) state =
  world :: 'w
  trace :: "('o extcall \<times> exn option) list"
  stdout :: "string list"

type_synonym ('a, 'o, 'w) comp = "('o, 'w) state \<Rightarrow> (exn + 'a) \<times> ('o, 'w) state"

definition ret :: "'a \<Rightarrow> ('a, 'o, 'w) comp" where
  "ret x s = (Inr x, s)"

text \<open>Sequencing of statements: an exception of the first skips the second.\<close>

definition seq :: "('a, 'o, 'w) comp \<Rightarrow> ('a \<Rightarrow> ('b, 'o, 'w) comp) \<Rightarrow> ('b, 'o, 'w) comp" where
  "seq c k s = (case c s of (Inl e, s') \<Rightarrow> (Inl e, s') | (Inr x, s') \<Rightarrow> k x s')"

text \<open>\<^verbatim>\<open>try: body  except Exception: handler\<close>.\<close>

definition try_except_Exception ::
  "('a, 'o, 'w) comp \<Rightarrow> ('a, 'o, 'w) comp \<Rightarrow> ('a, 'o, 'w) comp" where
  "try_except_Exception body handler s =
     (case body s of
        (Inl e, s') \<Rightarrow> if is_Exception e then handler s' else (Inl e, s')
      | (Inr x, s') \<Rightarrow> (Inr x, s'))"

text \<open>An external call: run it on the world and log it with its outcome.\<close>

definition outcome :: "exn + 'a \<Rightarrow> exn option" where
  "outcome r = (case r of Inl e \<Rightarrow> Some e | Inr x \<Rightarrow> None)"

definition call :: "'o extcall \<Rightarrow> ('w \<Rightarrow> (exn + 'a) \<times> 'w) \<Rightarrow> ('a, 'o, 'w) comp" where
  "call c f s =
     (case f (world s) of
        (r, w') \<Rightarrow> (r, s\<lparr>world := w', trace := trace s @ [(c, outcome r)]\<rparr>))"

text \<open>
  \<^verbatim>\<open>print(line)\<close>: the line is appended to standard output.  Writing to the
  terminal is taken not to raise.
\<close>

definition print :: "string \<Rightarrow> (unit, 'o, 'w) comp" where
  "print line s = (Inr (), s\<lparr>stdout := stdout s @ [line]\<rparr>)"

section \<open>The script\<close>

text \<open>
  The constants of the module.  \<^verbatim>\<open>GRAPH_PATH\<close> is
  \<^verbatim>\<open>ROOT / "graphs/full_causal.gpickle"\<close>; it is kept relative to \<^verbatim>\<open>ROOT\<close>, the
  directory of the script.
\<close>

definition GRAPH_PATH :: string where
  "GRAPH_PATH = ''graphs/full_causal.gpickle''"

definition TREATMENT :: string where
  "TREATMENT = ''Y11_Q57''"

definition OUTCOME :: string where
  "OUTCOME = ''Y11_MWIndex''"

text \<open>The literal \<^verbatim>\<open>0.5\<close>.\<close>

definition half :: pyfloat where
  "half = PyFinite False 1 (- 1)"

text \<open>
  \<^verbatim>\<open>df = choose_columns(); df = preprocess_data(df, na_threshold=0.5,
  impute_strategy="drop", treatment_dichotomize_value="median", treatment_column=TREATMENT);
  return df\<close>.
\<close>

definition load_data :: "('o, 'w) lib \<Rightarrow> ('o, 'o, 'w) comp" where
  "load_data L =
     seq (call ChooseColumns (choose_columns L)) (\<lambda>df.
     seq (call (PreprocessData df half ''drop'' ''median'' TREATMENT)
            (preprocess_data L df half ''drop'' ''median'' TREATMENT)) (\<lambda>df'.
     ret df'))"

text \<open>
  \<^verbatim>\<open>with open(GRAPH_PATH, "rb") as f: return pickle.load(f)\<close>: the file's
  \<^verbatim>\<open>__exit__\<close> runs whether \<^verbatim>\<open>pickle.load\<close> returned or raised; an exception of
  \<^verbatim>\<open>__exit__\<close> itself replaces the outcome of the body.
\<close>

definition load_graph :: "('o, 'w) lib \<Rightarrow> ('o, 'o, 'w) comp" where
  "load_graph L =
     seq (call (OpenRb GRAPH_PATH) (open_rb L GRAPH_PATH)) (\<lambda>f s.
       case call (PickleLoad f) (pickle_load L f) s of
         (r, s') \<Rightarrow>
           (case call (FileExit f) (file_exit L f) s' of
              (Inl e, s'') \<Rightarrow> (Inl e, s'')
            | (Inr u, s'') \<Rightarrow> (r, s'')))"

definition methods :: "string list" where
  "methods =
     [''backdoor.propensity_score_matching'',
      ''backdoor.propensity_score_weighting'',
      ''backdoor.propensity_score_stratification'',
      ''backdoor.linear_regression'']"

text \<open>One iteration of \<^verbatim>\<open>for m in methods:\<close>, on the dictionary \<open>results\<close>
  (insertion-ordered, as Python's \<^verbatim>\<open>dict\<close> is).\<close>

definition estimate_one ::
  "('o, 'w) lib \<Rightarrow> 'o \<Rightarrow> 'o \<Rightarrow> string \<Rightarrow> (string \<times> pyfloat) list
     \<Rightarrow> ((string \<times> pyfloat) list, 'o, 'w) comp" where
  "estimate_one L model estimand m results =
     try_except_Exception
       (seq (call (EstimateEffect model estimand m) (estimate_effect L model estimand m)) (\<lambda>est.
        seq (call (ValueAttr est) (value_attr L est)) (\<lambda>v.
        seq (call (FloatConv v) (float_conv L v)) (\<lambda>x.
        ret (AList.update m x results)))))
       (ret (AList.update m PyNaN results))"

fun estimate_loop ::
  "('o, 'w) lib \<Rightarrow> 'o \<Rightarrow> 'o \<Rightarrow> string list \<Rightarrow> (string \<times> pyfloat) list
     \<Rightarrow> ((string \<times> pyfloat) list, 'o, 'w) comp" where
  "estimate_loop L model estimand [] results = ret results"
| "estimate_loop L model estimand (m # ms) results =
     seq (estimate_one L model estimand m results) (estimate_loop L model estimand ms)"

text \<open>
  \<^verbatim>\<open>estimate_effects\<close>: the graph is serialised
  (\<^verbatim>\<open>nx.nx_pydot.to_pydot(graph).to_string()\<close>), the model constructed, the effect
  identified, and then the loop runs over the method list, starting from the empty
  dictionary.
\<close>

definition estimate_effects ::
  "('o, 'w) lib \<Rightarrow> 'o \<Rightarrow> 'o \<Rightarrow> ((string \<times> pyfloat) list, 'o, 'w) comp" where
  "estimate_effects L df graph =
     seq (call (ToPydot graph) (to_pydot L graph)) (\<lambda>dot.
     seq (call (ToString dot) (to_string L dot)) (\<lambda>gs.
     seq (call (CausalModelInit df TREATMENT OUTCOME gs) (CausalModel L df TREATMENT OUTCOME gs))
       (\<lambda>model.
     seq (call (IdentifyEffect model) (identify_effect L model)) (\<lambda>estimand.
     estimate_loop L model estimand methods []))))"

subsection \<open>Formatting\<close>

text \<open>Decimal digits of a natural number, as \<^verbatim>\<open>str\<close> gives them.\<close>

definition digit_char :: "nat \<Rightarrow> char" where
  "digit_char d = ''0123456789'' ! d"

fun decimal :: "nat \<Rightarrow> string" where
  "decimal n = (if n < 10 then [digit_char n] else decimal (n div 10) @ [digit_char (n mod 10)])"

declare decimal.simps [simp del]

text \<open>
  \<open>m * 2 ^ e * 10 ^ 4\<close> rounded to the nearest natural number, ties to even: the
  correctly rounded conversion that the format \<^verbatim>\<open>.4f\<close> applies to the exact value.
\<close>

definition scaled4 :: "nat \<Rightarrow> int \<Rightarrow> nat" where
  "scaled4 m e =
     (if 0 \<le> e then m * 10000 * 2 ^ nat e
      else
        let d = 2 ^ nat (- e); n = m * 10000; q = n div d; r = n mod d
        in if d < 2 * r then q + 1
           else if 2 * r < d then q
           else if even q then q else q + 1)"

text \<open>The fraction digits, zero-padded to four.\<close>

definition frac4 :: "nat \<Rightarrow> string" where
  "frac4 k = replicate (4 - length (decimal k)) CHR ''0'' @ decimal k"

text \<open>\<^verbatim>\<open>f"{val:.4f}"\<close>.\<close>

fun format_4f :: "pyfloat \<Rightarrow> string" where
  "format_4f (PyFinite neg m e) =
     (if neg then ''-'' else '''') @ decimal (scaled4 m e div 10000) @ ''.''
       @ frac4 (scaled4 m e mod 10000)"
| "format_4f (PyInf neg) = (if neg then ''-inf'' else ''inf'')"
| "format_4f PyNaN = ''nan''"

text \<open>\<^verbatim>\<open>f"{name:<40}"\<close>: pad on the right with spaces to width 40.\<close>

definition ljust40 :: "string \<Rightarrow> string" where
  "ljust40 name = name @ replicate (40 - length name) CHR '' ''"

text \<open>\<^verbatim>\<open>f"  {name:<40} {val:.4f}"\<close>.\<close>

definition report_line :: "string \<Rightarrow> pyfloat \<Rightarrow> string" where
  "report_line name val = ''  '' @ ljust40 name @ '' '' @ format_4f val"

subsection \<open>The entry point\<close>

text \<open>\<^verbatim>\<open>for name, val in results.items(): print(...)\<close>.\<close>

fun print_items :: "(string \<times> pyfloat) list \<Rightarrow> (unit, 'o, 'w) comp" where
  "print_items [] = ret ()"
| "print_items ((name, val) # rest) =
     seq (print (report_line name val)) (\<lambda>u. print_items rest)"

definition main :: "('o, 'w) lib \<Rightarrow> (unit, 'o, 'w) comp" where
  "main L =
     seq (load_data L) (\<lambda>df.
     seq (load_graph L) (\<lambda>graph.
     seq (estimate_effects L df graph) (\<lambda>results.
     seq (print ''Estimation results (ATE):'') (\<lambda>u.
     print_items results))))"

text \<open>
  \<^verbatim>\<open>if __name__ == "__main__": main()\<close>: when \<open>main\<close> returns the interpreter exits
  with code 0; an exception that leaves \<open>main\<close> is uncaught and ends the process.
\<close>

datatype process_end = Exit nat | Uncaught exn

definition script :: "('o, 'w) lib \<Rightarrow> ('o, 'w) state \<Rightarrow> process_end \<times> ('o, 'w) state" where
  "script L s =
     (case main L s of
        (Inl e, s') \<Rightarrow> (Uncaught e, s')
      | (Inr u, s') \<Rightarrow> (Exit 0, s'))"

text \<open>A run starts in some world, with nothing logged and nothing printed.\<close>

definition init :: "'w \<Rightarrow> ('o, 'w) state" where
  "init w = \<lparr>world = w, trace = [], stdout = []\<rparr>"

section \<open>Reading the log\<close>

text \<open>The methods whose estimation was started, in the order of the calls.\<close>

fun attempted :: "('o extcall \<times> exn option) list \<Rightarrow> string list" where
  "attempted [] = []"
| "attempted ((EstimateEffect model estimand m, out) # tr) = m # attempted tr"
| "attempted (ev # tr) = attempted tr"

text \<open>The calls made inside the body of the \<^verbatim>\<open>try\<close>.\<close>

fun is_method_call :: "'o extcall \<Rightarrow> bool" where
  "is_method_call (EstimateEffect model estimand m) = True"
| "is_method_call (ValueAttr est) = True"
| "is_method_call (FloatConv v) = True"
| "is_method_call c = False"

text \<open>
  The log of one iteration of the method loop, for the method \<open>m\<close> on a model and an
  estimand: the \<^verbatim>\<open>estimate_effect\<close> call of \<open>m\<close>; then, when that returned, the
  read of \<^verbatim>\<open>.value\<close>; then, when that returned too, the conversion \<^verbatim>\<open>float(...)\<close>.
  A block of fewer than three calls ends with the call that raised.
\<close>

fun is_value_read :: "'o extcall \<Rightarrow> bool" where
  "is_value_read (ValueAttr est) = True"
| "is_value_read c = False"

fun is_float_conv :: "'o extcall \<Rightarrow> bool" where
  "is_float_conv (FloatConv v) = True"
| "is_float_conv c = False"

fun is_block :: "'o \<Rightarrow> 'o \<Rightarrow> string \<Rightarrow> ('o extcall \<times> exn option) list \<Rightarrow> bool" where
  "is_block model estimand m [x] =
     (fst x = EstimateEffect model estimand m \<and> snd x \<noteq> None)"
| "is_block model estimand m [x, y] =
     (x = (EstimateEffect model estimand m, None) \<and> is_value_read (fst y) \<and> snd y \<noteq> None)"
| "is_block model estimand m [x, y, z] =
     (x = (EstimateEffect model estimand m, None) \<and> is_value_read (fst y) \<and> snd y = None \<and>
      is_float_conv (fst z))"
| "is_block model estimand m b = False"

text \<open>
  The failures of the log, each with the method in whose iteration it was raised
  (\<open>cur\<close> is the method of the latest \<^verbatim>\<open>estimate_effect\<close> call, if there was one):
  a method fails when its \<^verbatim>\<open>estimate_effect\<close> call, the read of \<^verbatim>\<open>.value\<close> or the
  conversion \<^verbatim>\<open>float(...)\<close> raises.
\<close>

fun current_method :: "string option \<Rightarrow> 'o extcall \<Rightarrow> string option" where
  "current_method cur (EstimateEffect model estimand m) = Some m"
| "current_method cur c = cur"

fun method_failures ::
  "string option \<Rightarrow> ('o extcall \<times> exn option) list \<Rightarrow> (string \<times> exn) list" where
  "method_failures cur [] = []"
| "method_failures cur ((c, out) # tr) =
     (case (current_method cur c, out) of
        (Some m, Some e) \<Rightarrow> [(m, e)]
      | _ \<Rightarrow> []) @ method_failures (current_method cur c) tr"

text \<open>The calls made by \<^verbatim>\<open>load_data\<close> and \<^verbatim>\<open>load_graph\<close>.\<close>

fun is_load_call :: "'o extcall \<Rightarrow> bool" where
  "is_load_call ChooseColumns = True"
| "is_load_call (PreprocessData df na imp dich col) = True"
| "is_load_call (OpenRb path) = True"
| "is_load_call (PickleLoad f) = True"
| "is_load_call (FileExit f) = True"
| "is_load_call c = False"

text \<open>The calls of \<^verbatim>\<open>pickle.load\<close>: each one deserialises the graph once.\<close>

fun is_pickle_load :: "'o extcall \<times> exn option \<Rightarrow> bool" where
  "is_pickle_load (PickleLoad f, out) = True"
| "is_pickle_load ev = False"

text \<open>The constructions of a \<^verbatim>\<open>CausalModel\<close> and the calls of \<^verbatim>\<open>identify_effect\<close>.\<close>

fun is_construction :: "'o extcall \<times> exn option \<Rightarrow> bool" where
  "is_construction (CausalModelInit df t y gs, out) = True"
| "is_construction ev = False"

fun is_identification :: "'o extcall \<times> exn option \<Rightarrow> bool" where
  "is_identification (IdentifyEffect model, out) = True"
| "is_identification ev = False"

text \<open>
  An observation \<open>obs\<close> of the world (for instance the nodes and edges of the graph
  object) is left unchanged by the library calls that \<^verbatim>\<open>estimate_effects\<close> makes on
  the table \<open>df\<close> and the graph \<open>graph\<close>: the serialisation of that graph, the
  construction of the model on that table with the two column names of the module, the
  identification, and for the methods of the list the estimation, the read of
  \<^verbatim>\<open>.value\<close> and the conversion.
\<close>

definition leaves_unchanged :: "('w \<Rightarrow> 'a) \<Rightarrow> ('o, 'w) lib \<Rightarrow> 'o \<Rightarrow> 'o \<Rightarrow> bool" where
  "leaves_unchanged obs L df graph \<longleftrightarrow>
     (\<forall>w. obs (snd (to_pydot L graph w)) = obs w) \<and>
     (\<forall>d w. obs (snd (to_string L d w)) = obs w) \<and>
     (\<forall>gs w. obs (snd (CausalModel L df TREATMENT OUTCOME gs w)) = obs w) \<and>
     (\<forall>model w. obs (snd (identify_effect L model w)) = obs w) \<and>
     (\<forall>model estimand w. \<forall>m\<in>set methods.
        obs (snd (estimate_effect L model estimand m w)) = obs w) \<and>
     (\<forall>est w. obs (snd (value_attr L est w)) = obs w) \<and>
     (\<forall>v w. obs (snd (float_conv L v w)) = obs w)"

text \<open>
  The same state with \<open>p\<close> put in front of its log.  What a computation does never
  depends on what was logged before it.
\<close>

definition shift_trace ::
  "('o extcall \<times> exn option) list \<Rightarrow> ('o, 'w) state \<Rightarrow> ('o, 'w) state" where
  "shift_trace p s = s\<lparr>trace := p @ trace s\<rparr>"

section \<open>Reading the report\<close>

text \<open>The natural number that a string of decimal digits denotes.\<close>

definition digits_value :: "string \<Rightarrow> nat" where
  "digits_value ds = foldl (\<lambda>acc c. 10 * acc + (of_char c - 48)) 0 ds"

text \<open>
  What printing "to four decimal places" asks of the digits: \<open>q\<close> is the quotient
  \<open>n / d\<close> rounded to a nearest natural number, and to the even one when the quotient
  lies half-way between two.  Stated without division: twice the distance between
  \<open>n\<close> and \<open>q * d\<close> is at most \<open>d\<close>.
\<close>

definition rounds_half_even :: "nat \<Rightarrow> nat \<Rightarrow> nat \<Rightarrow> bool" where
  "rounds_half_even q n d \<longleftrightarrow>
     \<bar>2 * int n - 2 * int q * int d\<bar> \<le> int d \<and>
     (\<bar>2 * int n - 2 * int q * int d\<bar> = int d \<longrightarrow> even q)"

section \<open>A sample library\<close>

text \<open>
  A concrete collaborator set on which the script can be run.  The world is the number
  of calls made so far and the edge list of the graph object.  Data preparation, graph
  loading and model construction fail as the first three parameters say; a method's
  estimation raises, yields \<^verbatim>\<open>None\<close> as value (so that \<^verbatim>\<open>float\<close> raises a
  \<^verbatim>\<open>TypeError\<close>) or yields a number, as the fourth says.
\<close>

datatype sample_obj =
    SDf | SGraph | SFile | SDot | SModel | SEstimand
  | SEst "pyfloat option" | SVal "pyfloat option"

type_synonym sample_world = "nat \<times> (string \<times> string) list"

definition tick :: "sample_world \<Rightarrow> sample_world" where
  "tick w = (Suc (fst w), snd w)"

definition fail_or :: "exn option \<Rightarrow> 'a \<Rightarrow> sample_world \<Rightarrow> (exn + 'a) \<times> sample_world" where
  "fail_or f x w = (case f of Some e \<Rightarrow> (Inl e, tick w) | None \<Rightarrow> (Inr x, tick w))"

definition sample_lib ::
  "exn option \<Rightarrow> exn option \<Rightarrow> exn option \<Rightarrow> (string \<Rightarrow> exn + pyfloat option)
     \<Rightarrow> (sample_obj, sample_world) lib" where
  "sample_lib data_fail graph_fail model_fail meth =
     \<lparr>choose_columns = fail_or None SDf,
      preprocess_data = (\<lambda>df na imp dich col. fail_or data_fail SDf),
      open_rb = (\<lambda>path. fail_or None SFile),
      pickle_load = (\<lambda>f. fail_or graph_fail SGraph),
      file_exit = (\<lambda>f. fail_or None ()),
      to_pydot = (\<lambda>g. fail_or None SDot),
      to_string = (\<lambda>d. fail_or None ''digraph G {}''),
      CausalModel = (\<lambda>df t y g. fail_or model_fail SModel),
      identify_effect = (\<lambda>model. fail_or None SEstimand),
      estimate_effect = (\<lambda>model estimand m w.
         case meth m of Inl e \<Rightarrow> (Inl e, tick w) | Inr v \<Rightarrow> (Inr (SEst v), tick w)),
      value_attr = (\<lambda>est. fail_or None (case est of SEst v \<Rightarrow> SVal v | x \<Rightarrow> x)),
      float_conv = (\<lambda>v w.
         case v of SVal (Some x) \<Rightarrow> (Inr x, tick w) | x \<Rightarrow> (Inl (Exception ''TypeError''), tick w))\<rparr>"

definition world0 :: sample_world where
  "world0 = (0, [(''Y11_Q57'', ''Y11_MWIndex'')])"

text \<open>Weighting does not converge, stratification has no value, the rest succeed.\<close>

definition flaky :: "string \<Rightarrow> exn + pyfloat option" where
  "flaky m =
     (if m = ''backdoor.propensity_score_weighting'' then Inl (Exception ''LinAlgError'')
      else if m = ''backdoor.propensity_score_stratification'' then Inr None
      else Inr (Some (PyFinite True 5 (- 2))))"

text \<open>The user interrupts the run during stratification.\<close>

definition interrupted :: "string \<Rightarrow> exn + pyfloat option" where
  "interrupted m =
     (if m = ''backdoor.propensity_score_stratification'' then Inl KeyboardInterrupt
      else flaky m)"

text \<open>
  Matching yields \<open>- 1 / 32\<close>, weighting does not converge, stratification yields
  infinity, linear regression yields \<open>7 / 128\<close>.
\<close>

definition mixed :: "string \<Rightarrow> exn + pyfloat option" where
  "mixed m =
     (if m = ''backdoor.propensity_score_matching'' then Inr (Some (PyFinite True 1 (- 5)))
      else if m = ''backdoor.propensity_score_weighting'' then Inl (Exception ''LinAlgError'')
      else if m = ''backdoor.propensity_score_stratification'' then Inr (Some (PyInf False))
      else Inr (Some (PyFinite False 7 (- 7))))"

section \<open>The log of a run\<close>

lemma seq_result:
  "seq c k s = (res, s') \<longleftrightarrow>
     (\<exists>e. c s = (Inl e, s') \<and> res = Inl e) \<or> (\<exists>x s1. c s = (Inr x, s1) \<and> k x s1 = (res, s'))"
  by (auto simp: seq_def split: prod.splits sum.splits)

lemma attempted_append: "attempted (t1 @ t2) = attempted t1 @ attempted t2"
  by (induction t1 rule: attempted.induct) auto

lemma estimate_one_log:
  assumes "estimate_one L model estimand m r s = (res, s')"
  shows "\<exists>t. trace s' = trace s @ t \<and> stdout s' = stdout s \<and> t \<noteq> [] \<and>
           attempted t = [m] \<and>
           (\<forall>x\<in>set t. is_method_call (fst x)) \<and>
           (\<forall>x\<in>set (butlast t). snd x = None) \<and>
           (\<forall>cur. method_failures cur t =
              (case snd (last t) of None \<Rightarrow> [] | Some e \<Rightarrow> [(m, e)])) \<and>
           (case snd (last t) of
              None \<Rightarrow> \<exists>x. res = Inr (AList.update m x r)
            | Some e \<Rightarrow> res = (if is_Exception e then Inr (AList.update m PyNaN r) else Inl e))"
  using assms
  unfolding estimate_one_def try_except_Exception_def seq_def call_def ret_def outcome_def
  by (auto split: prod.splits sum.splits if_splits)

lemma method_failures_append:
  "method_failures cur (t1 @ t2) =
     method_failures cur t1 @ method_failures (foldl current_method cur (map fst t1)) t2"
  by (induction t1 arbitrary: cur) (auto split: option.splits)

lemma all_butlast_append:
  "(\<forall>x\<in>set (butlast (t1 @ t2)). P x) \<longleftrightarrow>
     (if t2 = [] then (\<forall>x\<in>set (butlast t1). P x) else (\<forall>x\<in>set t1. P x) \<and> (\<forall>x\<in>set (butlast t2). P x))"
  by (auto simp: butlast_append)

lemma all_set_butlast_last:
  "t \<noteq> [] \<Longrightarrow> (\<forall>x\<in>set t. P x) \<longleftrightarrow> (\<forall>x\<in>set (butlast t). P x) \<and> P (last t)"
  by (metis append_butlast_last_id in_set_butlastD last_in_set rotate1.simps(2) set_ConsD set_rotate1)

lemma estimate_loop_log:
  "estimate_loop L model estimand ms r s = (res, s') \<Longrightarrow>
   \<exists>t. trace s' = trace s @ t \<and> stdout s' = stdout s \<and>
       (\<forall>x\<in>set t. is_method_call (fst x)) \<and>
       (\<forall>x\<in>set (butlast t). \<forall>e. snd x = Some e \<longrightarrow> is_Exception e) \<and>
       prefix (attempted t) ms \<and>
       (\<forall>cur. method_failures cur t = method_failures None t) \<and>
       (case res of
          Inr r' \<Rightarrow> attempted t = ms \<and> (\<forall>x\<in>set t. \<forall>e. snd x = Some e \<longrightarrow> is_Exception e)
        | Inl e \<Rightarrow> t \<noteq> [] \<and> snd (last t) = Some e \<and> \<not> is_Exception e)"
proof (induction ms arbitrary: r s)
  case Nil
  then show ?case by (auto simp: ret_def)
next
  case (Cons m ms)
  from Cons.prems consider
    (abort) e where "estimate_one L model estimand m r s = (Inl e, s')" "res = Inl e"
  | (continue) r1 s1 where "estimate_one L model estimand m r s = (Inr r1, s1)"
      "estimate_loop L model estimand ms r1 s1 = (res, s')"
    by (auto simp: seq_result)
  then show ?case
  proof cases
    case abort
    from estimate_one_log[OF abort(1)] obtain t where t:
      "trace s' = trace s @ t" "stdout s' = stdout s" "t \<noteq> []" "attempted t = [m]"
      "\<forall>x\<in>set t. is_method_call (fst x)" "\<forall>x\<in>set (butlast t). snd x = None"
      "\<forall>cur. method_failures cur t = (case snd (last t) of None \<Rightarrow> [] | Some e \<Rightarrow> [(m, e)])"
      "case snd (last t) of None \<Rightarrow> \<exists>x. (Inl e :: exn + (string \<times> pyfloat) list) = Inr (AList.update m x r)
        | Some e' \<Rightarrow> Inl e = (if is_Exception e' then Inr (AList.update m PyNaN r) else Inl e')"
      by (elim exE conjE) (rule that)
    from t(8) have "snd (last t) = Some e \<and> \<not> is_Exception e"
      by (auto split: option.splits if_splits)
    with t abort(2) show ?thesis
      by (intro exI[of _ t]) auto
  next
    case continue
    from estimate_one_log[OF continue(1)] obtain t1 where t1:
      "trace s1 = trace s @ t1" "stdout s1 = stdout s" "t1 \<noteq> []" "attempted t1 = [m]"
      "\<forall>x\<in>set t1. is_method_call (fst x)" "\<forall>x\<in>set (butlast t1). snd x = None"
      "\<forall>cur. method_failures cur t1 = (case snd (last t1) of None \<Rightarrow> [] | Some e \<Rightarrow> [(m, e)])"
      "case snd (last t1) of None \<Rightarrow> \<exists>x. (Inr r1 :: exn + (string \<times> pyfloat) list) = Inr (AList.update m x r)
        | Some e' \<Rightarrow> Inr r1 = (if is_Exception e' then Inr (AList.update m PyNaN r) else Inl e')"
      by (elim exE conjE) (rule that)
    from t1(8) have last1: "\<forall>e. snd (last t1) = Some e \<longrightarrow> is_Exception e"
      by (auto split: option.splits if_splits)
    with t1(3,6) have all1: "\<forall>x\<in>set t1. \<forall>e. snd x = Some e \<longrightarrow> is_Exception e"
      by (subst all_set_butlast_last) auto
    from Cons.IH[OF continue(2)] obtain t2 where t2:
      "trace s' = trace s1 @ t2" "stdout s' = stdout s1"
      "\<forall>x\<in>set t2. is_method_call (fst x)"
      "\<forall>x\<in>set (butlast t2). \<forall>e. snd x = Some e \<longrightarrow> is_Exception e"
      "prefix (attempted t2) ms"
      "\<forall>cur. method_failures cur t2 = method_failures None t2"
      "case res of
          Inr r' \<Rightarrow> attempted t2 = ms \<and> (\<forall>x\<in>set t2. \<forall>e. snd x = Some e \<longrightarrow> is_Exception e)
        | Inl e \<Rightarrow> t2 \<noteq> [] \<and> snd (last t2) = Some e \<and> \<not> is_Exception e"
      by (elim exE conjE) (rule that)
    have mf: "\<forall>cur. method_failures cur (t1 @ t2) = method_failures None (t1 @ t2)"
      using t1(7) t2(6) by (simp add: method_failures_append) metis
    have bl: "\<forall>x\<in>set (butlast (t1 @ t2)). \<forall>e. snd x = Some e \<longrightarrow> is_Exception e"
      using t1(6) all1 t2(4) by (subst all_butlast_append) auto
    show ?thesis
      apply (rule exI[of _ "t1 @ t2"])
      using t1(1,2,4,5) t2(1,2,3,5,7) mf bl all1
      by (auto simp: attempted_append split: sum.splits)
  qed
qed

lemma estimate_one_returns:
  assumes "estimate_one L model estimand m r s = (Inr r1, s1)"
  shows "\<exists>x. r1 = AList.update m x r"
  using assms
  unfolding estimate_one_def try_except_Exception_def seq_def call_def ret_def
  by (auto split: prod.splits sum.splits if_splits)

lemma estimate_loop_frame:
  "estimate_loop L model estimand ms r s = (Inr r', s') \<Longrightarrow> k \<notin> set ms \<Longrightarrow>
     map_of r' k = map_of r k"
proof (induction ms arbitrary: r s)
  case Nil
  then show ?case by (simp add: ret_def)
next
  case (Cons m ms)
  from Cons.prems(1) obtain r1 s1 where
    one: "estimate_one L model estimand m r s = (Inr r1, s1)" and
    rest: "estimate_loop L model estimand ms r1 s1 = (Inr r', s')"
    by (auto simp: seq_result)
  from estimate_one_returns[OF one] obtain x where "r1 = AList.update m x r" ..
  moreover from Cons.IH[OF rest] Cons.prems(2) have "map_of r' k = map_of r1 k" by simp
  ultimately show ?case using Cons.prems(2) by (simp add: update_conv')
qed

lemma estimate_loop_keys:
  "estimate_loop L model estimand ms r s = (Inr r', s') \<Longrightarrow> distinct ms \<Longrightarrow>
     set ms \<inter> fst ` set r = {} \<Longrightarrow> map fst r' = map fst r @ ms"
proof (induction ms arbitrary: r s)
  case Nil
  then show ?case by (simp add: ret_def)
next
  case (Cons m ms)
  from Cons.prems(1) obtain r1 s1 where
    one: "estimate_one L model estimand m r s = (Inr r1, s1)" and
    rest: "estimate_loop L model estimand ms r1 s1 = (Inr r', s')"
    by (auto simp: seq_result)
  from estimate_one_returns[OF one] obtain x where r1: "r1 = AList.update m x r" ..
  with Cons.prems(2,3) have keys1: "map fst r1 = map fst r @ [m]"
    by (auto simp: update_keys)
  then have "fst ` set r1 = insert m (fst ` set r)"
    by (metis Un_insert_right append_Nil2 list.set_map list.simps(15) set_append)
  with Cons.prems(2,3) have "set ms \<inter> fst ` set r1 = {}" by auto
  from Cons.IH[OF rest _ this] Cons.prems(2) keys1 show ?case by simp
qed

lemma estimate_loop_failures:
  assumes "estimate_loop L model estimand ms r s = (res, s')"
    and "trace s' = trace s @ t"
  shows "(\<forall>x\<in>set (method_failures None t). fst x \<in> set (attempted t)) \<and>
         (\<forall>r'. res = Inr r' \<longrightarrow> distinct ms \<longrightarrow>
            (\<forall>x\<in>set (method_failures None t). map_of r' (fst x) = Some PyNaN)) \<and>
         (\<forall>x\<in>set (method_failures None t). \<not> is_Exception (snd x) \<longrightarrow>
            res = Inl (snd x) \<and> attempted t \<noteq> [] \<and> last (attempted t) = fst x)"
  using assms
proof (induction ms arbitrary: r s t)
  case Nil
  then show ?case by (auto simp: ret_def)
next
  case (Cons m ms)
  from Cons.prems(1) consider
    (abort) e where "estimate_one L model estimand m r s = (Inl e, s')" "res = Inl e"
  | (continue) r1 s1 where "estimate_one L model estimand m r s = (Inr r1, s1)"
      "estimate_loop L model estimand ms r1 s1 = (res, s')"
    by (auto simp: seq_result)
  then show ?case
  proof cases
    case abort
    from estimate_one_log[OF abort(1)] Cons.prems(2) have t:
      "attempted t = [m]"
      "method_failures None t = (case snd (last t) of None \<Rightarrow> [] | Some e \<Rightarrow> [(m, e)])"
      "case snd (last t) of None \<Rightarrow> \<exists>x. (Inl e :: exn + (string \<times> pyfloat) list) = Inr (AList.update m x r)
        | Some e' \<Rightarrow> Inl e = (if is_Exception e' then Inr (AList.update m PyNaN r) else Inl e')"
      by auto
    from t(3) have "snd (last t) = Some e \<and> \<not> is_Exception e"
      by (auto split: option.splits if_splits)
    with t abort(2) show ?thesis by auto
  next
    case continue
    from estimate_one_log[OF continue(1)] obtain t1 where t1:
      "trace s1 = trace s @ t1" "attempted t1 = [m]"
      "\<forall>cur. method_failures cur t1 = (case snd (last t1) of None \<Rightarrow> [] | Some e \<Rightarrow> [(m, e)])"
      "case snd (last t1) of None \<Rightarrow> \<exists>x. (Inr r1 :: exn + (string \<times> pyfloat) list) = Inr (AList.update m x r)
        | Some e' \<Rightarrow> Inr r1 = (if is_Exception e' then Inr (AList.update m PyNaN r) else Inl e')"
      by (elim exE conjE) (rule that)
    from estimate_loop_log[OF continue(2)] obtain t2 where t2:
      "trace s' = trace s1 @ t2" "\<forall>cur. method_failures cur t2 = method_failures None t2"
      by (elim exE conjE) (rule that)
    from t1(1) t2(1) Cons.prems(2) have t: "t = t1 @ t2" by simp
    note IH = Cons.IH[OF continue(2) t2(1)]
    have mf: "method_failures None t = method_failures None t1 @ method_failures None t2"
      unfolding t using t2(2) by (simp add: method_failures_append)
    have f1: "\<forall>x\<in>set (method_failures None t1).
                 fst x = m \<and> is_Exception (snd x) \<and> r1 = AList.update m PyNaN r"
      using t1(3,4) by (auto split: option.splits if_splits)
    have nan1: "\<forall>r'. res = Inr r' \<longrightarrow> distinct (m # ms) \<longrightarrow>
                  (\<forall>x\<in>set (method_failures None t1). map_of r' (fst x) = Some PyNaN)"
    proof (intro allI impI ballI)
      fix r' x assume a: "res = Inr r'" "distinct (m # ms)" "x \<in> set (method_failures None t1)"
      with f1 have "fst x = m" "r1 = AList.update m PyNaN r" by auto
      moreover from estimate_loop_frame[of L model estimand ms r1 s1 r' s' m] continue(2) a
      have "map_of r' m = map_of r1 m" by simp
      ultimately show "map_of r' (fst x) = Some PyNaN" by (simp add: update_conv')
    qed
    show ?thesis
      unfolding mf using IH f1 nan1 t1(2)
      by (auto simp: t attempted_append)
  qed
qed

lemma distinct_methods: "distinct methods"
  by (simp add: methods_def)

lemma estimate_effects_cases:
  assumes "estimate_effects L df graph s = (res, s')"
  shows "(\<exists>t c e. trace s' = trace s @ t @ [(c, Some e)] \<and> stdout s' = stdout s \<and> res = Inl e \<and>
            \<not> is_method_call c \<and> \<not> is_load_call c \<and>
            (\<forall>x\<in>set t. snd x = None \<and> \<not> is_method_call (fst x) \<and> \<not> is_load_call (fst x))) \<or>
         (\<exists>dot gs model estimand s0.
            trace s0 = trace s @ [(ToPydot graph, None), (ToString dot, None),
              (CausalModelInit df TREATMENT OUTCOME gs, None), (IdentifyEffect model, None)] \<and>
            stdout s0 = stdout s \<and>
            estimate_loop L model estimand methods [] s0 = (res, s'))"
  using assms
  unfolding estimate_effects_def seq_def call_def outcome_def
  by (auto split: prod.splits sum.splits)

lemma attempted_no_method_call:
  "\<forall>x\<in>set t. \<not> is_method_call (fst x) \<Longrightarrow> attempted t = []"
  by (induction t rule: attempted.induct) auto

lemma method_failures_no_method_call:
  "\<forall>x\<in>set t. \<not> is_method_call (fst x) \<Longrightarrow> method_failures None t = []"
proof (induction t)
  case Nil
  then show ?case by simp
next
  case (Cons x t)
  then show ?case by (cases x; cases "fst x") auto
qed

lemma foldl_current_method_no_method_call:
  "\<forall>x\<in>set t. \<not> is_method_call (fst x) \<Longrightarrow> foldl current_method cur (map fst t) = cur"
proof (induction t arbitrary: cur)
  case Nil
  then show ?case by simp
next
  case (Cons x t)
  then show ?case by (cases "fst x") auto
qed

lemma estimate_effects_log:
  assumes run: "estimate_effects L df graph s = (res, s')"
  shows "\<exists>t. trace s' = trace s @ t \<and> stdout s' = stdout s \<and>
     prefix (attempted t) methods \<and>
     (\<forall>r. res = Inr r \<longrightarrow> attempted t = methods \<and> map fst r = methods \<and>
        (\<forall>x\<in>set (method_failures None t). map_of r (fst x) = Some PyNaN)) \<and>
     (\<forall>x\<in>set (method_failures None t). fst x \<in> set (attempted t)) \<and>
     (\<forall>x\<in>set (method_failures None t). \<not> is_Exception (snd x) \<longrightarrow>
        res = Inl (snd x) \<and> attempted t \<noteq> [] \<and> last (attempted t) = fst x) \<and>
     (\<forall>x\<in>set t. \<forall>e. snd x = Some e \<and> \<not> is_method_call (fst x) \<longrightarrow>
        res = Inl e \<and> attempted t = []) \<and>
     (\<forall>x\<in>set t. \<forall>e. snd x = Some e \<and> \<not> is_Exception e \<longrightarrow> res = Inl e \<and> last t = x) \<and>
     ((\<exists>r. res = Inr r) \<longleftrightarrow>
        (\<forall>x\<in>set t. \<forall>e. snd x = Some e \<longrightarrow> is_method_call (fst x) \<and> is_Exception e)) \<and>
     (attempted t \<noteq> [] \<or> (\<exists>r. res = Inr r) \<longrightarrow>
        (\<exists>dot gs model t'.
           t = [(ToPydot graph, None), (ToString dot, None),
                (CausalModelInit df TREATMENT OUTCOME gs, None), (IdentifyEffect model, None)] @ t' \<and>
           (\<forall>x\<in>set t'. is_method_call (fst x))))"
proof -
  from estimate_effects_cases[OF run] consider
    (setup_failed) t c e where "trace s' = trace s @ t @ [(c, Some e)]" "stdout s' = stdout s"
      "res = Inl e" "\<not> is_method_call c" "\<forall>x\<in>set t. snd x = None \<and> \<not> is_method_call (fst x)"
  | (setup_ok) dot gs model estimand s0 where
      "trace s0 = trace s @ [(ToPydot graph, None), (ToString dot, None),
         (CausalModelInit df TREATMENT OUTCOME gs, None), (IdentifyEffect model, None)]"
      "stdout s0 = stdout s" "estimate_loop L model estimand methods [] s0 = (res, s')"
    by blast
  then show ?thesis
  proof cases
    case setup_failed
    let ?t = "t @ [(c, Some e)]"
    have nm: "\<forall>x\<in>set ?t. \<not> is_method_call (fst x)" using setup_failed(4,5) by auto
    have att: "attempted ?t = []" by (rule attempted_no_method_call[OF nm])
    have mf: "method_failures None ?t = []" by (rule method_failures_no_method_call[OF nm])
    have only: "\<forall>x\<in>set ?t. \<forall>e'. snd x = Some e' \<longrightarrow> x = (c, Some e)"
      using setup_failed(5) by auto
    show ?thesis
      apply (rule exI[of _ ?t])
      unfolding att mf
      using setup_failed(1,2,3,4) only nm
      by (auto simp del: append_assoc)
  next
    case setup_ok
    let ?pre = "[(ToPydot graph, None), (ToString dot, None),
         (CausalModelInit df TREATMENT OUTCOME gs, None), (IdentifyEffect model, None)]"
    from estimate_loop_log[OF setup_ok(3)] obtain t2 where t2:
      "trace s' = trace s0 @ t2" "stdout s' = stdout s0"
      "\<forall>x\<in>set t2. is_method_call (fst x)"
      "\<forall>x\<in>set (butlast t2). \<forall>e. snd x = Some e \<longrightarrow> is_Exception e"
      "prefix (attempted t2) methods"
      "\<forall>cur. method_failures cur t2 = method_failures None t2"
      "case res of
          Inr r' \<Rightarrow> attempted t2 = methods \<and> (\<forall>x\<in>set t2. \<forall>e. snd x = Some e \<longrightarrow> is_Exception e)
        | Inl e \<Rightarrow> t2 \<noteq> [] \<and> snd (last t2) = Some e \<and> \<not> is_Exception e"
      by (elim exE conjE) (rule that)
    note fl = estimate_loop_failures[OF setup_ok(3) t2(1)]
    have att: "attempted (?pre @ t2) = attempted t2" by simp
    have mf: "method_failures None (?pre @ t2) = method_failures None t2"
      using t2(6) by simp
    have keys: "\<forall>r. res = Inr r \<longrightarrow> map fst r = methods"
      using estimate_loop_keys[OF _ distinct_methods, of L model estimand "[]" s0 _ s'] setup_ok(3)
      by auto
    have c2: "\<forall>r. res = Inr r \<longrightarrow> attempted t2 = methods \<and> map fst r = methods \<and>
        (\<forall>x\<in>set (method_failures None t2). map_of r (fst x) = Some PyNaN)"
      using keys t2(7) fl distinct_methods by auto
    have c5: "\<forall>x\<in>set (?pre @ t2). \<forall>e. snd x = Some e \<and> \<not> is_method_call (fst x) \<longrightarrow>
        res = Inl e \<and> attempted t2 = []"
      using t2(3) by auto
    have c6: "\<forall>x\<in>set (?pre @ t2). \<forall>e. snd x = Some e \<and> \<not> is_Exception e \<longrightarrow>
        res = Inl e \<and> last (?pre @ t2) = x"
    proof (intro ballI allI impI)
      fix x e assume x: "x \<in> set (?pre @ t2)" and e: "snd x = Some e \<and> \<not> is_Exception e"
      then have xt2: "x \<in> set t2" by auto
      then have ne: "t2 \<noteq> []" by auto
      from e t2(4) have "x \<notin> set (butlast t2)" by auto
      with xt2 ne have lx: "last t2 = x"
        by (metis append_butlast_last_id
            Un_iff insert_iff list.simps(15) set_append empty_iff empty_set)
      moreover have "res = Inl e"
      proof (cases res)
        case (Inl e')
        with t2(7) lx e show ?thesis by auto
      next
        case (Inr r)
        with t2(7) xt2 e show ?thesis by auto
      qed
      ultimately show "res = Inl e \<and> last (?pre @ t2) = x" using ne by simp
    qed
    have c7: "(\<exists>r. res = Inr r) \<longleftrightarrow>
        (\<forall>x\<in>set (?pre @ t2). \<forall>e. snd x = Some e \<longrightarrow> is_method_call (fst x) \<and> is_Exception e)"
    proof (cases res)
      case (Inl e)
      with t2(7) have "t2 \<noteq> []" "snd (last t2) = Some e" "\<not> is_Exception e" by auto
      then have "\<exists>x\<in>set (?pre @ t2). snd x = Some e \<and> \<not> is_Exception e"
        by (intro bexI[of _ "last t2"]) auto
      with Inl show ?thesis by auto
    next
      case (Inr r)
      with t2(3,7) show ?thesis by auto
    qed
    have c8: "\<exists>dot' gs' model' t'.
           ?pre @ t2 = [(ToPydot graph, None), (ToString dot', None),
                (CausalModelInit df TREATMENT OUTCOME gs', None), (IdentifyEffect model', None)] @ t' \<and>
           (\<forall>x\<in>set t'. is_method_call (fst x))"
      using t2(3) by auto
    show ?thesis
      apply (rule exI[of _ "?pre @ t2"])
      apply (intro conjI)
      subgoal using setup_ok(1) t2(1) by simp
      subgoal using setup_ok(2) t2(2) by simp
      subgoal unfolding att using t2(5) .
      subgoal unfolding att mf using c2 .
      subgoal unfolding att mf using fl by blast
      subgoal unfolding att mf using fl by blast
      subgoal unfolding att using c5 .
      subgoal using c6 .
      subgoal using c7 .
      subgoal using c8 by (intro impI)
      done
  qed
qed

lemmas run_defs =
  main_def script_def load_data_def load_graph_def estimate_effects_def estimate_one_def
  try_except_Exception_def seq_def call_def ret_def print_def outcome_def init_def
  methods_def TREATMENT_def OUTCOME_def GRAPH_PATH_def half_def
  sample_lib_def fail_or_def tick_def world0_def flaky_def interrupted_def mixed_def

lemma flaky_run:
  "estimate_effects (sample_lib None None None flaky) SDf SGraph (init world0) =
     (Inr [(''backdoor.propensity_score_matching'', PyFinite True 5 (- 2)),
           (''backdoor.propensity_score_weighting'', PyNaN),
           (''backdoor.propensity_score_stratification'', PyNaN),
           (''backdoor.linear_regression'', PyFinite True 5 (- 2))],
      \<lparr>world = (14, [(''Y11_Q57'', ''Y11_MWIndex'')]),
       trace =
         [(ToPydot SGraph, None), (ToString SDot, None),
          (CausalModelInit SDf ''Y11_Q57'' ''Y11_MWIndex'' ''digraph G {}'', None),
          (IdentifyEffect SModel, None),
          (EstimateEffect SModel SEstimand ''backdoor.propensity_score_matching'', None),
          (ValueAttr (SEst (Some (PyFinite True 5 (- 2)))), None),
          (FloatConv (SVal (Some (PyFinite True 5 (- 2)))), None),
          (EstimateEffect SModel SEstimand ''backdoor.propensity_score_weighting'',
             Some (Exception ''LinAlgError'')),
          (EstimateEffect SModel SEstimand ''backdoor.propensity_score_stratification'', None),
          (ValueAttr (SEst None), None),
          (FloatConv (SVal None), Some (Exception ''TypeError'')),
          (EstimateEffect SModel SEstimand ''backdoor.linear_regression'', None),
          (ValueAttr (SEst (Some (PyFinite True 5 (- 2)))), None),
          (FloatConv (SVal (Some (PyFinite True 5 (- 2)))), None)],
       stdout = []\<rparr>)"
  by (simp add: run_defs)

lemma interrupted_run:
  "estimate_effects (sample_lib None None None interrupted) SDf SGraph (init world0) =
     (Inl KeyboardInterrupt,
      \<lparr>world = (9, [(''Y11_Q57'', ''Y11_MWIndex'')]),
       trace =
         [(ToPydot SGraph, None), (ToString SDot, None),
          (CausalModelInit SDf ''Y11_Q57'' ''Y11_MWIndex'' ''digraph G {}'', None),
          (IdentifyEffect SModel, None),
          (EstimateEffect SModel SEstimand ''backdoor.propensity_score_matching'', None),
          (ValueAttr (SEst (Some (PyFinite True 5 (- 2)))), None),
          (FloatConv (SVal (Some (PyFinite True 5 (- 2)))), None),
          (EstimateEffect SModel SEstimand ''backdoor.propensity_score_weighting'',
             Some (Exception ''LinAlgError'')),
          (EstimateEffect SModel SEstimand ''backdoor.propensity_score_stratification'',
             Some KeyboardInterrupt)],
       stdout = []\<rparr>)"
  by (simp add: run_defs)

lemma no_model_run:
  "estimate_effects (sample_lib None None (Some (Exception ''ValueError'')) flaky) SDf SGraph
       (init world0) =
     (Inl (Exception ''ValueError''),
      \<lparr>world = (3, [(''Y11_Q57'', ''Y11_MWIndex'')]),
       trace =
         [(ToPydot SGraph, None), (ToString SDot, None),
          (CausalModelInit SDf ''Y11_Q57'' ''Y11_MWIndex'' ''digraph G {}'',
             Some (Exception ''ValueError''))],
       stdout = []\<rparr>)"
  by (simp add: run_defs)

lemma estimate_effects_setup:
  assumes "estimate_effects L df graph s = (res, s')"
  shows "(\<forall>e w1. to_pydot L graph (world s) = (Inl e, w1) \<longrightarrow>
            res = Inl e \<and>
            s' = s\<lparr>world := w1, trace := trace s @ [(ToPydot graph, Some e)]\<rparr>) \<and>
         (\<forall>dot w1 e w2.
            to_pydot L graph (world s) = (Inr dot, w1) \<and> to_string L dot w1 = (Inl e, w2) \<longrightarrow>
            res = Inl e \<and>
            s' = s\<lparr>world := w2,
                   trace := trace s @ [(ToPydot graph, None), (ToString dot, Some e)]\<rparr>) \<and>
         (\<forall>dot w1 gs w2 e w3.
            to_pydot L graph (world s) = (Inr dot, w1) \<and> to_string L dot w1 = (Inr gs, w2) \<and>
            CausalModel L df TREATMENT OUTCOME gs w2 = (Inl e, w3) \<longrightarrow>
            res = Inl e \<and>
            s' = s\<lparr>world := w3,
                   trace := trace s @ [(ToPydot graph, None), (ToString dot, None),
                     (CausalModelInit df TREATMENT OUTCOME gs, Some e)]\<rparr>) \<and>
         (\<forall>dot w1 gs w2 model w3 e w4.
            to_pydot L graph (world s) = (Inr dot, w1) \<and> to_string L dot w1 = (Inr gs, w2) \<and>
            CausalModel L df TREATMENT OUTCOME gs w2 = (Inr model, w3) \<and>
            identify_effect L model w3 = (Inl e, w4) \<longrightarrow>
            res = Inl e \<and>
            s' = s\<lparr>world := w4,
                   trace := trace s @ [(ToPydot graph, None), (ToString dot, None),
                     (CausalModelInit df TREATMENT OUTCOME gs, None),
                     (IdentifyEffect model, Some e)]\<rparr>) \<and>
         (\<forall>dot w1 gs w2 model w3 estimand w4.
            to_pydot L graph (world s) = (Inr dot, w1) \<and> to_string L dot w1 = (Inr gs, w2) \<and>
            CausalModel L df TREATMENT OUTCOME gs w2 = (Inr model, w3) \<and>
            identify_effect L model w3 = (Inr estimand, w4) \<longrightarrow>
            estimate_loop L model estimand methods []
              (s\<lparr>world := w4,
                 trace := trace s @ [(ToPydot graph, None), (ToString dot, None),
                     (CausalModelInit df TREATMENT OUTCOME gs, None),
                     (IdentifyEffect model, None)]\<rparr>) = (res, s'))"
  using assms
  unfolding estimate_effects_def seq_def call_def outcome_def
  by (auto split: prod.splits sum.splits)

lemma is_block_calls:
  "is_block model estimand m b \<Longrightarrow>
     b \<noteq> [] \<and> attempted b = [m] \<and> (\<forall>x\<in>set b. is_method_call (fst x)) \<and>
     (\<forall>x\<in>set (butlast b). snd x = None)"
proof (induction model estimand m b rule: is_block.induct)
  case (2 model estimand m x y)
  then show ?case by (cases y; cases "fst y") auto
next
  case (3 model estimand m x y z)
  then show ?case by (cases y; cases z; cases "fst y"; cases "fst z") auto
qed auto

lemma estimate_one_block:
  assumes "estimate_one L model estimand m r s = (res, s')"
  shows "\<exists>b. trace s' = trace s @ b \<and> is_block model estimand m b \<and>
           (case snd (last b) of
              None \<Rightarrow> \<exists>x. res = Inr (AList.update m x r)
            | Some e \<Rightarrow> res = (if is_Exception e then Inr (AList.update m PyNaN r) else Inl e))"
  using assms
  unfolding estimate_one_def try_except_Exception_def seq_def call_def ret_def outcome_def
  by (auto split: prod.splits sum.splits if_splits)

lemma estimate_one_value:
  assumes "estimate_one L model estimand m r s = (Inr r1, s1)"
  shows "r1 = AList.update m PyNaN r \<or>
         (\<exists>x est v w0 w1 w2 w3. r1 = AList.update m x r \<and>
            estimate_effect L model estimand m w0 = (Inr est, w1) \<and>
            value_attr L est w1 = (Inr v, w2) \<and> float_conv L v w2 = (Inr x, w3))"
  using assms
  unfolding estimate_one_def try_except_Exception_def seq_def call_def ret_def outcome_def
  by (auto split: prod.splits sum.splits if_splits)

lemma estimate_loop_blocks:
  "estimate_loop L model estimand ms r s = (res, s') \<Longrightarrow>
   \<exists>blocks. trace s' = trace s @ concat blocks \<and>
     length blocks \<le> length ms \<and>
     list_all2 (is_block model estimand) (take (length blocks) ms) blocks \<and>
     (\<forall>b\<in>set (butlast blocks). \<forall>e. snd (last b) = Some e \<longrightarrow> is_Exception e) \<and>
     (case res of
        Inr r' \<Rightarrow> length blocks = length ms \<and>
          (\<forall>b\<in>set blocks. \<forall>e. snd (last b) = Some e \<longrightarrow> is_Exception e)
      | Inl e \<Rightarrow> blocks \<noteq> [] \<and> snd (last (last blocks)) = Some e \<and> \<not> is_Exception e)"
proof (induction ms arbitrary: r s)
  case Nil
  then show ?case by (intro exI[of _ "[]"]) (auto simp: ret_def)
next
  case (Cons m ms)
  from Cons.prems consider
    (abort) e where "estimate_one L model estimand m r s = (Inl e, s')" "res = Inl e"
  | (continue) r1 s1 where "estimate_one L model estimand m r s = (Inr r1, s1)"
      "estimate_loop L model estimand ms r1 s1 = (res, s')"
    by (auto simp: seq_result)
  then show ?case
  proof cases
    case abort
    from estimate_one_block[OF abort(1)] obtain b where b:
      "trace s' = trace s @ b" "is_block model estimand m b"
      "case snd (last b) of
         None \<Rightarrow> \<exists>x. (Inl e :: exn + (string \<times> pyfloat) list) = Inr (AList.update m x r)
       | Some e' \<Rightarrow> Inl e = (if is_Exception e' then Inr (AList.update m PyNaN r) else Inl e')"
      by (elim exE conjE) (rule that)
    from b(3) have "snd (last b) = Some e \<and> \<not> is_Exception e"
      by (auto split: option.splits if_splits)
    with b(1,2) abort(2) show ?thesis
      by (intro exI[of _ "[b]"]) auto
  next
    case continue
    from estimate_one_block[OF continue(1)] obtain b where b:
      "trace s1 = trace s @ b" "is_block model estimand m b"
      "case snd (last b) of
         None \<Rightarrow> \<exists>x. (Inr r1 :: exn + (string \<times> pyfloat) list) = Inr (AList.update m x r)
       | Some e' \<Rightarrow> Inr r1 = (if is_Exception e' then Inr (AList.update m PyNaN r) else Inl e')"
      by (elim exE conjE) (rule that)
    from b(3) have lastb: "\<forall>e. snd (last b) = Some e \<longrightarrow> is_Exception e"
      by (auto split: option.splits if_splits)
    from Cons.IH[OF continue(2)] obtain blocks where bl:
      "trace s' = trace s1 @ concat blocks"
      "length blocks \<le> length ms"
      "list_all2 (is_block model estimand) (take (length blocks) ms) blocks"
      "\<forall>b\<in>set (butlast blocks). \<forall>e. snd (last b) = Some e \<longrightarrow> is_Exception e"
      "case res of
        Inr r' \<Rightarrow> length blocks = length ms \<and>
          (\<forall>b\<in>set blocks. \<forall>e. snd (last b) = Some e \<longrightarrow> is_Exception e)
      | Inl e \<Rightarrow> blocks \<noteq> [] \<and> snd (last (last blocks)) = Some e \<and> \<not> is_Exception e"
      by (elim exE conjE) (rule that)
    have bl4: "\<forall>b'\<in>set (butlast (b # blocks)). \<forall>e. snd (last b') = Some e \<longrightarrow> is_Exception e"
      using lastb bl(4) by auto
    show ?thesis
      apply (rule exI[of _ "b # blocks"])
      apply (intro conjI)
      subgoal using b(1) bl(1) by simp
      subgoal using bl(2) by simp
      subgoal using b(2) bl(3) by simp
      subgoal using bl4 .
      subgoal using bl(5) lastb by (cases res) auto
      done
  qed
qed

lemma blocks_calls:
  "list_all2 (is_block model estimand) ms blocks \<Longrightarrow>
     attempted (concat blocks) = ms \<and> (\<forall>x\<in>set (concat blocks). is_method_call (fst x))"
proof (induction ms blocks rule: list_all2_induct)
  case Nil
  then show ?case by simp
next
  case (Cons m ms b blocks)
  from is_block_calls[OF Cons.hyps(1)] Cons.IH show ?case
    by (auto simp: attempted_append)
qed

lemma last_concat_blocks:
  "blocks \<noteq> [] \<Longrightarrow> last blocks \<noteq> [] \<Longrightarrow> last (pre @ concat blocks) = last (last blocks)"
proof -
  assume a: "blocks \<noteq> []" "last blocks \<noteq> []"
  then have "concat blocks = concat (butlast blocks) @ last blocks"
    by (metis append_butlast_last_id concat.simps(1,2) concat_append append_Nil2)
  with a(2) show ?thesis by simp
qed

lemma filter_none: "\<forall>x\<in>set t. \<not> P x \<Longrightarrow> filter P t = []"
  by (simp add: filter_empty_conv)

lemma method_call_not_construction: "is_method_call (fst x) \<Longrightarrow> \<not> is_construction x \<and> \<not> is_identification x"
  by (cases x; cases "fst x") auto

lemma update_set: "set (AList.update k v al) \<subseteq> insert (k, v) (set al)"
  by (induction al) auto

lemma estimate_loop_values:
  "estimate_loop L model estimand ms r s = (Inr r', s') \<Longrightarrow>
   \<forall>p\<in>set r'. p \<in> set r \<or> snd p = PyNaN \<or>
     (\<exists>est v w0 w1 w2 w3.
        estimate_effect L model estimand (fst p) w0 = (Inr est, w1) \<and>
        value_attr L est w1 = (Inr v, w2) \<and> float_conv L v w2 = (Inr (snd p), w3))"
proof (induction ms arbitrary: r s)
  case Nil
  then show ?case by (simp add: ret_def)
next
  case (Cons m ms)
  from Cons.prems obtain r1 s1 where
    one: "estimate_one L model estimand m r s = (Inr r1, s1)" and
    rest: "estimate_loop L model estimand ms r1 s1 = (Inr r', s')"
    by (auto simp: seq_result)
  have step: "\<forall>p\<in>set r1. p \<in> set r \<or> snd p = PyNaN \<or>
     (\<exists>est v w0 w1 w2 w3.
        estimate_effect L model estimand (fst p) w0 = (Inr est, w1) \<and>
        value_attr L est w1 = (Inr v, w2) \<and> float_conv L v w2 = (Inr (snd p), w3))"
  proof
    fix p assume p: "p \<in> set r1"
    from estimate_one_value[OF one] show "p \<in> set r \<or> snd p = PyNaN \<or>
     (\<exists>est v w0 w1 w2 w3.
        estimate_effect L model estimand (fst p) w0 = (Inr est, w1) \<and>
        value_attr L est w1 = (Inr v, w2) \<and> float_conv L v w2 = (Inr (snd p), w3))"
    proof (elim disjE exE conjE)
      assume "r1 = AList.update m PyNaN r"
      with p update_set[of m PyNaN r] show ?thesis by auto
    next
      fix x est v w0 w1 w2 w3
      assume a: "r1 = AList.update m x r" "estimate_effect L model estimand m w0 = (Inr est, w1)"
        "value_attr L est w1 = (Inr v, w2)" "float_conv L v w2 = (Inr x, w3)"
      from a(1) p update_set[of m x r] have "p = (m, x) \<or> p \<in> set r" by auto
      with a(2,3,4) show ?thesis by auto
    qed
  qed
  from Cons.IH[OF rest] step show ?case by blast
qed

lemma estimate_effects_values:
  assumes "estimate_effects L df graph s = (Inr results, s')"
  shows "\<exists>model estimand. \<forall>p\<in>set results. snd p = PyNaN \<or>
     (\<exists>est v w0 w1 w2 w3.
        estimate_effect L model estimand (fst p) w0 = (Inr est, w1) \<and>
        value_attr L est w1 = (Inr v, w2) \<and> float_conv L v w2 = (Inr (snd p), w3))"
  using estimate_effects_cases[OF assms]
proof (elim disjE exE conjE)
  fix dot gs model estimand s0
  assume "estimate_loop L model estimand methods [] s0 = (Inr results, s')"
  from estimate_loop_values[OF this] show ?thesis by auto
qed simp

lemma prefix_upto_last:
  assumes "prefix xs ys" "xs \<noteq> []" "distinct ys"
  shows "xs = takeWhile (\<lambda>m. m \<noteq> last xs) ys @ [last xs]"
proof -
  from assms(1) obtain zs where ys: "ys = xs @ zs" by (auto simp: prefix_def)
  from assms(2) have xs: "xs = butlast xs @ [last xs]" by simp
  with assms(3) ys have "distinct (butlast xs @ [last xs])" by (metis distinct_append)
  then have notin: "\<forall>x\<in>set (butlast xs). x \<noteq> last xs" by auto
  have "ys = butlast xs @ (last xs # zs)" using ys xs by (metis append_Cons append_Nil append_assoc)
  then have "takeWhile (\<lambda>m. m \<noteq> last xs) ys = butlast xs"
    using notin by simp
  with xs show ?thesis by simp
qed

section \<open>The estimator driver\<close>

text \<open>
  Claim C1.  Take any run of \<open>estimate_effects\<close> in which the only calls that raised are
  calls made inside the \<^verbatim>\<open>try\<close> (\<^verbatim>\<open>estimate_effect\<close>, the read of \<^verbatim>\<open>.value\<close>,
  \<^verbatim>\<open>float\<close>) and what they raised is of class \<^verbatim>\<open>Exception\<close>, whatever the cause.
  Then \<open>estimate_effects\<close> returns a result mapping, every one of the four methods was
  attempted, in the order of the method list, and every method that failed is recorded
  with the not-a-number sentinel: no failure of one method keeps another from being
  attempted, and every cause gives the same sentinel.
\<close>

theorem C1_failure_isolation:
  assumes "estimate_effects L df graph (init w) = (res, s')"
    and "\<forall>x\<in>set (trace s'). \<forall>e. snd x = Some e \<longrightarrow> is_method_call (fst x) \<and> is_Exception e"
  shows "\<exists>results. res = Inr results \<and>
           attempted (trace s') = methods \<and>
           (\<forall>x\<in>set (method_failures None (trace s')).
              fst x \<in> set methods \<and> map_of results (fst x) = Some PyNaN)"
proof -
  from estimate_effects_log[OF assms(1)] assms(2) obtain results where "res = Inr results"
    by (auto simp: init_def)
  with estimate_effects_log[OF assms(1)] show ?thesis
    by (auto simp: init_def)
qed

theorem C1_failure_isolation_witness:
  "method_failures None
     (trace (snd (estimate_effects (sample_lib None None None flaky) SDf SGraph (init world0)))) =
     [(''backdoor.propensity_score_weighting'', Exception ''LinAlgError''),
      (''backdoor.propensity_score_stratification'', Exception ''TypeError'')] \<and>
   (\<exists>results.
      fst (estimate_effects (sample_lib None None None flaky) SDf SGraph (init world0)) = Inr results \<and>
      map_of results ''backdoor.propensity_score_weighting'' = Some PyNaN \<and>
      map_of results ''backdoor.propensity_score_stratification'' = Some PyNaN)"
proof -
  let ?R = "estimate_effects (sample_lib None None None flaky) SDf SGraph (init world0)"
  have run: "?R = (fst ?R, snd ?R)" by simp
  have only: "\<forall>x\<in>set (trace (snd ?R)). \<forall>e. snd x = Some e \<longrightarrow> is_method_call (fst x) \<and> is_Exception e"
    by (simp add: flaky_run)
  have mf: "method_failures None (trace (snd ?R)) =
     [(''backdoor.propensity_score_weighting'', Exception ''LinAlgError''),
      (''backdoor.propensity_score_stratification'', Exception ''TypeError'')]"
    by (simp add: flaky_run)
  from C1_failure_isolation[OF run only] obtain results where
    "fst ?R = Inr results"
    "\<forall>x\<in>set (method_failures None (trace (snd ?R))). map_of results (fst x) = Some PyNaN"
    by blast
  with mf show ?thesis by simp
qed

text \<open>
  Claim C2.  Whenever \<open>estimate_effects\<close> returns, the keys of the returned mapping are
  exactly the four configured method identifiers, each once, in insertion order,
  whichever methods succeeded or failed.
\<close>

theorem C2_result_keys:
  assumes "estimate_effects L df graph s = (Inr results, s')"
  shows "map fst results =
           [''backdoor.propensity_score_matching'',
            ''backdoor.propensity_score_weighting'',
            ''backdoor.propensity_score_stratification'',
            ''backdoor.linear_regression'']"
  using estimate_effects_log[OF assms] by (auto simp: methods_def)

theorem C2_result_keys_witness:
  "fst (estimate_effects (sample_lib None None None flaky) SDf SGraph (init world0)) =
     Inr [(''backdoor.propensity_score_matching'', PyFinite True 5 (- 2)),
          (''backdoor.propensity_score_weighting'', PyNaN),
          (''backdoor.propensity_score_stratification'', PyNaN),
          (''backdoor.linear_regression'', PyFinite True 5 (- 2))] \<and>
   map fst (projr (fst (estimate_effects (sample_lib None None None flaky) SDf SGraph (init world0)))) =
     [''backdoor.propensity_score_matching'',
      ''backdoor.propensity_score_weighting'',
      ''backdoor.propensity_score_stratification'',
      ''backdoor.linear_regression'']"
  using C2_result_keys[OF flaky_run] by (simp add: flaky_run)

text \<open>
  Claim C3.  The log of a run of \<open>estimate_effects\<close> is the set-up calls followed by
  one block of calls per method whose estimation was started.  The blocks come in the
  order of the method list (matching, weighting, stratification, linear regression),
  without gap or repetition, all on the same model and estimand, the model being the
  one that \<^verbatim>\<open>identify_effect\<close> was called on.  A block is the
  method's \<^verbatim>\<open>estimate_effect\<close> call, then the read of \<^verbatim>\<open>.value\<close> if that call
  returned, then \<^verbatim>\<open>float(...)\<close> if the read returned: no call of another method lies
  inside it, and every block before the last ended with a return or with an
  \<^verbatim>\<open>Exception\<close>, which was caught.  So each estimation has run to completion or failed
  before the next begins.  All four blocks are there whenever \<open>estimate_effects\<close>
  returns, and whenever the only calls that raised are calls inside the \<^verbatim>\<open>try\<close>
  raising an \<^verbatim>\<open>Exception\<close>.  There are fewer than four only when the run ended with
  the exception of its last call, which is either a set-up call (then no method was
  started) or an exception that is not of class \<^verbatim>\<open>Exception\<close>.
\<close>

theorem C3_fixed_order:
  assumes "estimate_effects L df graph (init w) = (res, s')"
  shows "\<exists>pre model estimand blocks.
           trace s' = pre @ concat blocks \<and>
           (\<forall>x\<in>set pre. \<not> is_method_call (fst x)) \<and>
           (blocks \<noteq> [] \<longrightarrow>
              (\<exists>dot gs. pre =
                 [(ToPydot graph, None), (ToString dot, None),
                  (CausalModelInit df ''Y11_Q57'' ''Y11_MWIndex'' gs, None),
                  (IdentifyEffect model, None)])) \<and>
           length blocks \<le> 4 \<and>
           list_all2 (is_block model estimand)
             (take (length blocks)
                [''backdoor.propensity_score_matching'',
                 ''backdoor.propensity_score_weighting'',
                 ''backdoor.propensity_score_stratification'',
                 ''backdoor.linear_regression''])
             blocks \<and>
           attempted (trace s') =
             take (length blocks)
                [''backdoor.propensity_score_matching'',
                 ''backdoor.propensity_score_weighting'',
                 ''backdoor.propensity_score_stratification'',
                 ''backdoor.linear_regression''] \<and>
           (\<forall>b\<in>set (butlast blocks). \<forall>e. snd (last b) = Some e \<longrightarrow> is_Exception e) \<and>
           ((\<exists>results. res = Inr results) \<longrightarrow> length blocks = 4) \<and>
           ((\<forall>x\<in>set (trace s'). \<forall>e. snd x = Some e \<longrightarrow> is_method_call (fst x) \<and> is_Exception e)
              \<longrightarrow> length blocks = 4) \<and>
           (length blocks < 4 \<longrightarrow>
              (\<exists>e. res = Inl e \<and> snd (last (trace s')) = Some e \<and>
                 (is_Exception e \<longrightarrow> blocks = [])))"
proof -
  from estimate_effects_cases[OF assms] consider
    (setup_failed) t c e where "trace s' = t @ [(c, Some e)]"
      "res = Inl e" "\<not> is_method_call c" "\<forall>x\<in>set t. snd x = None \<and> \<not> is_method_call (fst x)"
  | (setup_ok) dot gs model estimand s0 where
      "trace s0 = [(ToPydot graph, None), (ToString dot, None),
         (CausalModelInit df TREATMENT OUTCOME gs, None), (IdentifyEffect model, None)]"
      "estimate_loop L model estimand methods [] s0 = (res, s')"
    by (auto simp: init_def)
  then show ?thesis
  proof cases
    case setup_failed
    let ?pre = "t @ [(c, Some e)]"
    have nm: "\<forall>x\<in>set ?pre. \<not> is_method_call (fst x)" using setup_failed(3,4) by auto
    have att: "attempted ?pre = []" by (rule attempted_no_method_call[OF nm])
    show ?thesis
      apply (rule exI[of _ ?pre], rule exI[of _ graph], rule exI[of _ graph], rule exI[of _ "[]"])
      using setup_failed(1,2,3) nm att by (auto simp del: append_assoc)
  next
    case setup_ok
    let ?pre = "[(ToPydot graph, None), (ToString dot, None),
         (CausalModelInit df TREATMENT OUTCOME gs, None), (IdentifyEffect model, None)]"
    from estimate_loop_blocks[OF setup_ok(2)] obtain blocks where bl:
      "trace s' = trace s0 @ concat blocks"
      "length blocks \<le> length methods"
      "list_all2 (is_block model estimand) (take (length blocks) methods) blocks"
      "\<forall>b\<in>set (butlast blocks). \<forall>e. snd (last b) = Some e \<longrightarrow> is_Exception e"
      "case res of
        Inr r' \<Rightarrow> length blocks = length methods \<and>
          (\<forall>b\<in>set blocks. \<forall>e. snd (last b) = Some e \<longrightarrow> is_Exception e)
      | Inl e \<Rightarrow> blocks \<noteq> [] \<and> snd (last (last blocks)) = Some e \<and> \<not> is_Exception e"
      by (elim exE conjE) (rule that)
    have tr: "trace s' = ?pre @ concat blocks" using bl(1) setup_ok(1) by simp
    from blocks_calls[OF bl(3)] have att: "attempted (concat blocks) = take (length blocks) methods"
      and mc: "\<forall>x\<in>set (concat blocks). is_method_call (fst x)" by auto
    have att': "attempted (trace s') = take (length blocks) methods"
      unfolding tr by (simp add: attempted_append att)
    have lastne: "blocks \<noteq> [] \<Longrightarrow> last blocks \<noteq> []"
    proof -
      assume ne: "blocks \<noteq> []"
      then have "length blocks - 1 < length blocks" by simp
      from list_all2_nthD2[OF bl(3) this] ne
      have "is_block model estimand (take (length blocks) methods ! (length blocks - 1)) (last blocks)"
        by (simp add: last_conv_nth)
      from is_block_calls[OF this] show ?thesis by simp
    qed
    have ret4: "(\<exists>results. res = Inr results) \<longrightarrow> length blocks = 4"
      using bl(5) by (cases res) (auto simp: methods_def)
    have esc: "length blocks < 4 \<longrightarrow>
              (\<exists>e. res = Inl e \<and> snd (last (trace s')) = Some e \<and>
                 (is_Exception e \<longrightarrow> blocks = []))"
    proof (cases res)
      case (Inl e)
      with bl(5) have ne: "blocks \<noteq> []" and l: "snd (last (last blocks)) = Some e"
        and ne': "\<not> is_Exception e" by auto
      from last_concat_blocks[OF ne lastne[OF ne], of ?pre] tr l
      have "snd (last (trace s')) = Some e" by simp
      with Inl ne' show ?thesis by simp
    next
      case (Inr r)
      with ret4 show ?thesis by simp
    qed
    have only: "(\<forall>x\<in>set (trace s'). \<forall>e. snd x = Some e \<longrightarrow> is_method_call (fst x) \<and> is_Exception e)
              \<longrightarrow> length blocks = 4"
    proof (cases res)
      case (Inl e)
      with bl(5) have ne: "blocks \<noteq> []" and l: "snd (last (last blocks)) = Some e"
        and ne': "\<not> is_Exception e" by auto
      from lastne[OF ne] ne have "last (last blocks) \<in> set (concat blocks)"
        by (metis last_in_set concat.simps(2) append_butlast_last_id concat_append
            Un_iff set_append)
      then have "last (last blocks) \<in> set (trace s')" unfolding tr by simp
      with l ne' show ?thesis by blast
    next
      case (Inr r)
      with ret4 show ?thesis by simp
    qed
    show ?thesis
      apply (rule exI[of _ ?pre], rule exI[of _ model], rule exI[of _ estimand],
          rule exI[of _ blocks])
      apply (intro conjI)
      subgoal by (rule tr)
      subgoal by simp
      subgoal by (simp add: TREATMENT_def OUTCOME_def)
      subgoal using bl(2) by (simp add: methods_def)
      subgoal using bl(3) by (simp add: methods_def)
      subgoal using att' by (simp add: methods_def)
      subgoal by (rule bl(4))
      subgoal by (rule ret4)
      subgoal by (rule only)
      subgoal by (rule esc)
      done
  qed
qed

theorem C3_fixed_order_witness:
  "(\<exists>results.
      fst (estimate_effects (sample_lib None None None flaky) SDf SGraph (init world0)) = Inr results) \<and>
   attempted (trace (snd (estimate_effects (sample_lib None None None flaky) SDf SGraph (init world0)))) =
     [''backdoor.propensity_score_matching'',
      ''backdoor.propensity_score_weighting'',
      ''backdoor.propensity_score_stratification'',
      ''backdoor.linear_regression'']"
proof -
  let ?R = "estimate_effects (sample_lib None None None flaky) SDf SGraph (init world0)"
  have run: "?R = (fst ?R, snd ?R)" by simp
  have ret: "\<exists>results. fst ?R = Inr results" by (simp add: flaky_run)
  have only: "\<forall>x\<in>set (trace (snd ?R)). \<forall>e. snd x = Some e \<longrightarrow>
      is_method_call (fst x) \<and> is_Exception e"
    by (simp add: flaky_run)
  from C3_fixed_order[OF run] only obtain blocks :: "(sample_obj extcall \<times> exn option) list list"
    where "length blocks = 4"
      "attempted (trace (snd ?R)) =
         take (length blocks)
           [''backdoor.propensity_score_matching'',
            ''backdoor.propensity_score_weighting'',
            ''backdoor.propensity_score_stratification'',
            ''backdoor.linear_regression'']"
    by blast
  with ret show ?thesis by simp
qed

text \<open>
  Claim C5.  The set-up of \<open>estimate_effects\<close>, call by call, in terms of what the
  library returns.  The graph is serialised first.  Once the serialisation has returned
  a string, the \<^verbatim>\<open>CausalModel\<close> constructor is called on the data, \<^verbatim>\<open>Y11_Q57\<close>,
  \<^verbatim>\<open>Y11_MWIndex\<close> and that string; when it raises anything, of class
  \<^verbatim>\<open>Exception\<close> or not, \<open>estimate_effects\<close> raises the same exception and the
  construction is the last call of the log: nothing was caught, no method was started
  and there is no result mapping, so no sentinel entry.  Once the constructor has
  returned a model, \<^verbatim>\<open>identify_effect\<close> is called on that model, and likewise when
  it raises.  Once both have returned, the log is these four calls followed by calls
  made inside the \<^verbatim>\<open>try\<close> only (\<^verbatim>\<open>estimate_effect\<close>, the read of \<^verbatim>\<open>.value\<close>,
  \<^verbatim>\<open>float\<close>), starting with the first method: the log holds exactly one
  construction and exactly one identification, both before the loop, and of what is
  raised from then on only an exception that is not of class \<^verbatim>\<open>Exception\<close> leaves
  \<open>estimate_effects\<close>.  No run constructs or identifies more than once.
\<close>

theorem C5_setup_outside_boundary:
  assumes "estimate_effects L df graph (init w) = (res, s')"
  shows "(\<forall>e w1. to_pydot L graph w = (Inl e, w1) \<longrightarrow>
            res = Inl e \<and> trace s' = [(ToPydot graph, Some e)]) \<and>
         (\<forall>dot w1 e w2.
            to_pydot L graph w = (Inr dot, w1) \<and> to_string L dot w1 = (Inl e, w2) \<longrightarrow>
            res = Inl e \<and> trace s' = [(ToPydot graph, None), (ToString dot, Some e)]) \<and>
         (\<forall>dot w1 gs w2 e w3.
            to_pydot L graph w = (Inr dot, w1) \<and> to_string L dot w1 = (Inr gs, w2) \<and>
            CausalModel L df ''Y11_Q57'' ''Y11_MWIndex'' gs w2 = (Inl e, w3) \<longrightarrow>
            res = Inl e \<and>
            trace s' = [(ToPydot graph, None), (ToString dot, None),
               (CausalModelInit df ''Y11_Q57'' ''Y11_MWIndex'' gs, Some e)]) \<and>
         (\<forall>dot w1 gs w2 model w3 e w4.
            to_pydot L graph w = (Inr dot, w1) \<and> to_string L dot w1 = (Inr gs, w2) \<and>
            CausalModel L df ''Y11_Q57'' ''Y11_MWIndex'' gs w2 = (Inr model, w3) \<and>
            identify_effect L model w3 = (Inl e, w4) \<longrightarrow>
            res = Inl e \<and>
            trace s' = [(ToPydot graph, None), (ToString dot, None),
               (CausalModelInit df ''Y11_Q57'' ''Y11_MWIndex'' gs, None),
               (IdentifyEffect model, Some e)]) \<and>
         (\<forall>dot w1 gs w2 model w3 estimand w4.
            to_pydot L graph w = (Inr dot, w1) \<and> to_string L dot w1 = (Inr gs, w2) \<and>
            CausalModel L df ''Y11_Q57'' ''Y11_MWIndex'' gs w2 = (Inr model, w3) \<and>
            identify_effect L model w3 = (Inr estimand, w4) \<longrightarrow>
            (\<exists>t. trace s' = [(ToPydot graph, None), (ToString dot, None),
                    (CausalModelInit df ''Y11_Q57'' ''Y11_MWIndex'' gs, None),
                    (IdentifyEffect model, None)] @ t \<and>
                 (\<forall>x\<in>set t. is_method_call (fst x)) \<and>
                 hd (attempted t) = ''backdoor.propensity_score_matching'' \<and>
                 (\<forall>e. res = Inl e \<longrightarrow> \<not> is_Exception e)) \<and>
            length (filter is_construction (trace s')) = 1 \<and>
            length (filter is_identification (trace s')) = 1) \<and>
         length (filter is_construction (trace s')) \<le> 1 \<and>
         length (filter is_identification (trace s')) \<le> 1"
proof -
  note su = estimate_effects_setup[OF assms, unfolded TREATMENT_def OUTCOME_def]
  have c1: "\<forall>e w1. to_pydot L graph w = (Inl e, w1) \<longrightarrow>
            res = Inl e \<and> trace s' = [(ToPydot graph, Some e)]"
    using su by (auto simp: init_def)
  have c2: "\<forall>dot w1 e w2.
            to_pydot L graph w = (Inr dot, w1) \<and> to_string L dot w1 = (Inl e, w2) \<longrightarrow>
            res = Inl e \<and> trace s' = [(ToPydot graph, None), (ToString dot, Some e)]"
    using su by (auto simp: init_def)
  have c3: "\<forall>dot w1 gs w2 e w3.
            to_pydot L graph w = (Inr dot, w1) \<and> to_string L dot w1 = (Inr gs, w2) \<and>
            CausalModel L df ''Y11_Q57'' ''Y11_MWIndex'' gs w2 = (Inl e, w3) \<longrightarrow>
            res = Inl e \<and>
            trace s' = [(ToPydot graph, None), (ToString dot, None),
               (CausalModelInit df ''Y11_Q57'' ''Y11_MWIndex'' gs, Some e)]"
    using su by (auto simp: init_def)
  have c4: "\<forall>dot w1 gs w2 model w3 e w4.
            to_pydot L graph w = (Inr dot, w1) \<and> to_string L dot w1 = (Inr gs, w2) \<and>
            CausalModel L df ''Y11_Q57'' ''Y11_MWIndex'' gs w2 = (Inr model, w3) \<and>
            identify_effect L model w3 = (Inl e, w4) \<longrightarrow>
            res = Inl e \<and>
            trace s' = [(ToPydot graph, None), (ToString dot, None),
               (CausalModelInit df ''Y11_Q57'' ''Y11_MWIndex'' gs, None),
               (IdentifyEffect model, Some e)]"
    using su by (auto simp: init_def)
  have c5: "\<forall>dot w1 gs w2 model w3 estimand w4.
            to_pydot L graph w = (Inr dot, w1) \<and> to_string L dot w1 = (Inr gs, w2) \<and>
            CausalModel L df ''Y11_Q57'' ''Y11_MWIndex'' gs w2 = (Inr model, w3) \<and>
            identify_effect L model w3 = (Inr estimand, w4) \<longrightarrow>
            (\<exists>t. trace s' = [(ToPydot graph, None), (ToString dot, None),
                    (CausalModelInit df ''Y11_Q57'' ''Y11_MWIndex'' gs, None),
                    (IdentifyEffect model, None)] @ t \<and>
                 (\<forall>x\<in>set t. is_method_call (fst x)) \<and>
                 hd (attempted t) = ''backdoor.propensity_score_matching'' \<and>
                 (\<forall>e. res = Inl e \<longrightarrow> \<not> is_Exception e)) \<and>
            length (filter is_construction (trace s')) = 1 \<and>
            length (filter is_identification (trace s')) = 1"
  proof (intro allI impI, elim conjE)
    fix dot w1 gs w2 model w3 estimand w4
    assume a: "to_pydot L graph w = (Inr dot, w1)" "to_string L dot w1 = (Inr gs, w2)"
      "CausalModel L df ''Y11_Q57'' ''Y11_MWIndex'' gs w2 = (Inr model, w3)"
      "identify_effect L model w3 = (Inr estimand, w4)"
    let ?pre = "[(ToPydot graph, None), (ToString dot, None),
                    (CausalModelInit df ''Y11_Q57'' ''Y11_MWIndex'' gs, None),
                    (IdentifyEffect model, None)]"
    from su a have loop: "estimate_loop L model estimand methods []
        ((init w)\<lparr>world := w4, trace := trace (init w) @ ?pre\<rparr>) = (res, s')"
      by (simp add: init_def)
    from estimate_loop_log[OF loop] obtain t where t:
      "trace s' = ?pre @ t" "\<forall>x\<in>set t. is_method_call (fst x)"
      "prefix (attempted t) methods"
      "case res of
          Inr r' \<Rightarrow> attempted t = methods \<and> (\<forall>x\<in>set t. \<forall>e. snd x = Some e \<longrightarrow> is_Exception e)
        | Inl e \<Rightarrow> t \<noteq> [] \<and> snd (last t) = Some e \<and> \<not> is_Exception e"
      by (elim exE conjE) (rule that, auto simp: init_def)
    have "attempted t \<noteq> []"
    proof (cases res)
      case (Inr r')
      with t(4) show ?thesis by (auto simp: methods_def)
    next
      case (Inl e)
      from estimate_loop_blocks[OF loop] Inl obtain blocks where bl:
        "trace s' = ?pre @ concat blocks" "blocks \<noteq> []"
        "list_all2 (is_block model estimand) (take (length blocks) methods) blocks"
        by (auto simp: init_def)
      from blocks_calls[OF bl(3)] bl(1) t(1) have "attempted t = take (length blocks) methods"
        by simp
      with bl(2) show ?thesis by (auto simp: methods_def)
    qed
    with t(3) have hd: "hd (attempted t) = ''backdoor.propensity_score_matching''"
      by (cases "attempted t") (auto simp: methods_def)
    have esc: "\<forall>e. res = Inl e \<longrightarrow> \<not> is_Exception e"
      using t(4) by (cases res) auto
    from t(2) have none: "filter is_construction t = []" "filter is_identification t = []"
      using method_call_not_construction by (auto intro!: filter_none)
    have ex: "\<exists>t. trace s' = ?pre @ t \<and>
                 (\<forall>x\<in>set t. is_method_call (fst x)) \<and>
                 hd (attempted t) = ''backdoor.propensity_score_matching'' \<and>
                 (\<forall>e. res = Inl e \<longrightarrow> \<not> is_Exception e)"
      using t(1,2) hd esc by blast
    have "length (filter is_construction (trace s')) = 1"
         "length (filter is_identification (trace s')) = 1"
      using t(1) none by simp_all
    with ex show "(\<exists>t. trace s' = ?pre @ t \<and>
                 (\<forall>x\<in>set t. is_method_call (fst x)) \<and>
                 hd (attempted t) = ''backdoor.propensity_score_matching'' \<and>
                 (\<forall>e. res = Inl e \<longrightarrow> \<not> is_Exception e)) \<and>
            length (filter is_construction (trace s')) = 1 \<and>
            length (filter is_identification (trace s')) = 1"
      by blast
  qed
  have counts: "length (filter is_construction (trace s')) \<le> 1 \<and>
         length (filter is_identification (trace s')) \<le> 1"
  proof -
    obtain r1 w1 where p1: "to_pydot L graph w = (r1, w1)" by (metis surj_pair)
    show ?thesis
    proof (cases r1)
      case (Inl e)
      with c1 p1 show ?thesis by simp
    next
      case dot: (Inr dot)
      obtain r2 w2 where p2: "to_string L dot w1 = (r2, w2)" by (metis surj_pair)
      show ?thesis
      proof (cases r2)
        case (Inl e)
        with c2 p1 p2 dot show ?thesis by simp
      next
        case gs: (Inr gs)
        obtain r3 w3 where p3: "CausalModel L df ''Y11_Q57'' ''Y11_MWIndex'' gs w2 = (r3, w3)"
          by (metis surj_pair)
        show ?thesis
        proof (cases r3)
          case (Inl e)
          with c3 p1 p2 p3 dot gs show ?thesis by simp
        next
          case model: (Inr model)
          obtain r4 w4 where p4: "identify_effect L model w3 = (r4, w4)" by (metis surj_pair)
          show ?thesis
          proof (cases r4)
            case (Inl e)
            with c4 p1 p2 p3 p4 dot gs model show ?thesis by simp
          next
            case (Inr estimand)
            with c5 p1 p2 p3 p4 dot gs model show ?thesis by simp
          qed
        qed
      qed
    qed
  qed
  from c1 c2 c3 c4 c5 counts show ?thesis by (intro conjI) blast+
qed

theorem C5_setup_outside_boundary_witness:
  "fst (estimate_effects (sample_lib None None (Some (Exception ''ValueError'')) flaky) SDf SGraph
       (init world0)) = Inl (Exception ''ValueError'') \<and>
   trace (snd (estimate_effects
       (sample_lib None None (Some (Exception ''ValueError'')) flaky) SDf SGraph (init world0))) =
     [(ToPydot SGraph, None), (ToString SDot, None),
      (CausalModelInit SDf ''Y11_Q57'' ''Y11_MWIndex'' ''digraph G {}'',
         Some (Exception ''ValueError''))]"
proof -
  let ?L = "sample_lib None None (Some (Exception ''ValueError'')) flaky"
  let ?R = "estimate_effects ?L SDf SGraph (init world0)"
  have run: "?R = (fst ?R, snd ?R)" by simp
  have p1: "to_pydot ?L SGraph world0 = (Inr SDot, (1, [(''Y11_Q57'', ''Y11_MWIndex'')]))"
    by (simp add: run_defs)
  have p2: "to_string ?L SDot (1, [(''Y11_Q57'', ''Y11_MWIndex'')]) =
      (Inr ''digraph G {}'', (2, [(''Y11_Q57'', ''Y11_MWIndex'')]))"
    by (simp add: run_defs)
  have p3: "CausalModel ?L SDf ''Y11_Q57'' ''Y11_MWIndex'' ''digraph G {}''
      (2, [(''Y11_Q57'', ''Y11_MWIndex'')]) =
      (Inl (Exception ''ValueError''), (3, [(''Y11_Q57'', ''Y11_MWIndex'')]))"
    by (simp add: run_defs)
  note c5 = C5_setup_outside_boundary[OF run]
  from c5[THEN conjunct2, THEN conjunct2, THEN conjunct1, rule_format, OF conjI[OF p1 conjI[OF p2 p3]]]
  show ?thesis .
qed

text \<open>
  Claim C10.  When a call made during a method's estimation raises an exception that is
  not of class \<^verbatim>\<open>Exception\<close> (\<^verbatim>\<open>KeyboardInterrupt\<close>, \<^verbatim>\<open>SystemExit\<close>,
  \<^verbatim>\<open>GeneratorExit\<close>), \<open>estimate_effects\<close> raises that exception instead of returning
  a mapping, the methods attempted are those of the list up to and including that
  method, and the failing call is the last call of the run.
\<close>

theorem C10_only_Exception_is_caught:
  assumes "estimate_effects L df graph (init w) = (res, s')"
  shows "(\<forall>x\<in>set (method_failures None (trace s')). \<not> is_Exception (snd x) \<longrightarrow>
            res = Inl (snd x) \<and>
            attempted (trace s') = takeWhile (\<lambda>m. m \<noteq> fst x) methods @ [fst x]) \<and>
         (\<forall>x\<in>set (trace s'). \<forall>e. snd x = Some e \<and> \<not> is_Exception e \<longrightarrow>
            res = Inl e \<and> last (trace s') = x)"
proof -
  from estimate_effects_log[OF assms] have
    pre: "prefix (attempted (trace s')) methods" and
    esc: "\<forall>x\<in>set (method_failures None (trace s')). \<not> is_Exception (snd x) \<longrightarrow>
        res = Inl (snd x) \<and> attempted (trace s') \<noteq> [] \<and> last (attempted (trace s')) = fst x" and
    lst: "\<forall>x\<in>set (trace s'). \<forall>e. snd x = Some e \<and> \<not> is_Exception e \<longrightarrow>
        res = Inl e \<and> last (trace s') = x"
    by (auto simp: init_def)
  have "\<forall>x\<in>set (method_failures None (trace s')). \<not> is_Exception (snd x) \<longrightarrow>
            res = Inl (snd x) \<and>
            attempted (trace s') = takeWhile (\<lambda>m. m \<noteq> fst x) methods @ [fst x]"
  proof (intro ballI impI)
    fix x assume "x \<in> set (method_failures None (trace s'))" "\<not> is_Exception (snd x)"
    with esc have r: "res = Inl (snd x)" and ne: "attempted (trace s') \<noteq> []"
      and l: "last (attempted (trace s')) = fst x" by auto
    from prefix_upto_last[OF pre ne distinct_methods] l r
    show "res = Inl (snd x) \<and>
            attempted (trace s') = takeWhile (\<lambda>m. m \<noteq> fst x) methods @ [fst x]" by simp
  qed
  with lst show ?thesis by blast
qed

theorem C10_only_Exception_is_caught_witness:
  "method_failures None (trace (snd (estimate_effects
       (sample_lib None None None interrupted) SDf SGraph (init world0)))) =
     [(''backdoor.propensity_score_weighting'', Exception ''LinAlgError''),
      (''backdoor.propensity_score_stratification'', KeyboardInterrupt)] \<and>
   fst (estimate_effects (sample_lib None None None interrupted) SDf SGraph (init world0)) =
     Inl KeyboardInterrupt \<and>
   attempted (trace (snd (estimate_effects
       (sample_lib None None None interrupted) SDf SGraph (init world0)))) =
     [''backdoor.propensity_score_matching'', ''backdoor.propensity_score_weighting'',
      ''backdoor.propensity_score_stratification'']"
proof -
  let ?R = "estimate_effects (sample_lib None None None interrupted) SDf SGraph (init world0)"
  have run: "?R = (fst ?R, snd ?R)" by simp
  have mf: "method_failures None (trace (snd ?R)) =
     [(''backdoor.propensity_score_weighting'', Exception ''LinAlgError''),
      (''backdoor.propensity_score_stratification'', KeyboardInterrupt)]"
    by (simp add: interrupted_run)
  from C10_only_Exception_is_caught[OF run] mf
  have "fst ?R = Inl KeyboardInterrupt \<and>
        attempted (trace (snd ?R)) =
          takeWhile (\<lambda>m. m \<noteq> ''backdoor.propensity_score_stratification'') methods @
            [''backdoor.propensity_score_stratification'']"
    by simp
  with mf show ?thesis by (simp add: methods_def)
qed

section \<open>The whole run\<close>

lemma load_call_not_method_call: "is_load_call c \<Longrightarrow> \<not> is_method_call c"
  by (cases c) auto

lemma load_data_log:
  assumes "load_data L s = (res, s')"
  shows "\<exists>t. trace s' = trace s @ t \<and> stdout s' = stdout s \<and> t \<noteq> [] \<and>
           (\<forall>x\<in>set t. is_load_call (fst x) \<and> \<not> is_pickle_load x) \<and>
           (\<forall>x\<in>set (butlast t). snd x = None) \<and> snd (last t) = outcome res \<and>
           (\<forall>x\<in>set t. \<forall>df na imp dich col. fst x = PreprocessData df na imp dich col \<longrightarrow>
              na = PyFinite False 1 (- 1) \<and> imp = ''drop'' \<and> dich = ''median'' \<and> col = ''Y11_Q57'') \<and>
           ((ChooseColumns, None) \<in> set t \<longrightarrow>
              (\<exists>df. (PreprocessData df (PyFinite False 1 (- 1)) ''drop'' ''median'' ''Y11_Q57'',
                  outcome res) \<in> set t))"
  using assms
  unfolding load_data_def seq_def call_def ret_def outcome_def half_def TREATMENT_def
  by (auto split: prod.splits sum.splits)

lemma load_graph_log:
  assumes "load_graph L s = (res, s')"
  shows "\<exists>t. trace s' = trace s @ t \<and> stdout s' = stdout s \<and> t \<noteq> [] \<and>
           (\<forall>x\<in>set t. is_load_call (fst x)) \<and>
           (\<forall>x\<in>set t. \<forall>df na imp dich col. fst x \<noteq> PreprocessData df na imp dich col) \<and>
           length (filter is_pickle_load t) \<le> 1 \<and>
           ((\<exists>g. res = Inr g) \<longrightarrow> length (filter is_pickle_load t) = 1) \<and>
           ((\<exists>g. res = Inr g) \<longleftrightarrow> (\<forall>x\<in>set t. snd x = None)) \<and>
           (\<forall>e. res = Inl e \<longrightarrow> (\<exists>c. (c, Some e) \<in> set t))"
  using assms
  unfolding load_graph_def seq_def call_def ret_def outcome_def
  by (auto split: prod.splits sum.splits)

lemma print_items_result:
  "print_items results s =
     (Inr (), s\<lparr>stdout := stdout s @ map (\<lambda>(name, val). report_line name val) results\<rparr>)"
  by (induction results arbitrary: s) (auto simp: ret_def seq_def print_def)

lemma main_cases:
  assumes "main L s = (res, s')"
  shows "(\<exists>e. load_data L s = (Inl e, s') \<and> res = Inl e) \<or>
         (\<exists>df s1 e. load_data L s = (Inr df, s1) \<and> load_graph L s1 = (Inl e, s') \<and> res = Inl e) \<or>
         (\<exists>df s1 g s2 e. load_data L s = (Inr df, s1) \<and> load_graph L s1 = (Inr g, s2) \<and>
            estimate_effects L df g s2 = (Inl e, s') \<and> res = Inl e) \<or>
         (\<exists>df s1 g s2 results s3. load_data L s = (Inr df, s1) \<and> load_graph L s1 = (Inr g, s2) \<and>
            estimate_effects L df g s2 = (Inr results, s3) \<and> res = Inr () \<and>
            s' = s3\<lparr>stdout := stdout s3 @ ''Estimation results (ATE):'' #
                     map (\<lambda>(name, val). report_line name val) results\<rparr>)"
  using assms
  unfolding main_def seq_def print_def
  by (auto simp: print_items_result split: prod.splits sum.splits)

lemma all_returned:
  assumes "t \<noteq> []" "\<forall>x\<in>set (butlast t). snd x = None" "snd (last t) = None"
  shows "\<forall>x\<in>set t. snd x = None"
  using assms(2,3) by (subst all_set_butlast_last[OF assms(1)]) simp

lemma last_failed:
  assumes "t \<noteq> []" "snd (last t) = Some e"
  shows "\<exists>c. (c, Some e) \<in> set t"
  using assms by (metis last_in_set prod.collapse)

lemma loaders_failed:
  assumes "(load_data L s = (Inl e, s')) \<or>
           (\<exists>df s1. load_data L s = (Inr df, s1) \<and> load_graph L s1 = (Inl e, s'))"
  shows "\<exists>t. trace s' = trace s @ t \<and> stdout s' = stdout s \<and>
           (\<forall>x\<in>set t. is_load_call (fst x)) \<and>
           length (filter is_pickle_load t) \<le> 1 \<and>
           (\<forall>x\<in>set t. \<forall>df na imp dich col. fst x = PreprocessData df na imp dich col \<longrightarrow>
              na = PyFinite False 1 (- 1) \<and> imp = ''drop'' \<and> dich = ''median'' \<and> col = ''Y11_Q57'') \<and>
           (\<exists>c. (c, Some e) \<in> set t)"
  using assms
proof (elim disjE exE conjE)
  assume a: "load_data L s = (Inl e, s')"
  from load_data_log[OF a] obtain t where t:
    "trace s' = trace s @ t" "stdout s' = stdout s" "t \<noteq> []"
    "\<forall>x\<in>set t. is_load_call (fst x) \<and> \<not> is_pickle_load x"
    "snd (last t) = outcome (Inl e :: exn + 'a)"
    "\<forall>x\<in>set t. \<forall>df na imp dich col. fst x = PreprocessData df na imp dich col \<longrightarrow>
              na = PyFinite False 1 (- 1) \<and> imp = ''drop'' \<and> dich = ''median'' \<and> col = ''Y11_Q57''"
    by (elim exE conjE) (rule that)
  from t(4) have "filter is_pickle_load t = []" by (simp add: filter_empty_conv)
  moreover from last_failed[OF t(3)] t(5) have "\<exists>c. (c, Some e) \<in> set t"
    by (simp add: outcome_def)
  ultimately show ?thesis using t by (intro exI[of _ t]) simp
next
  fix df s1
  assume a: "load_data L s = (Inr df, s1)" and b: "load_graph L s1 = (Inl e, s')"
  from load_data_log[OF a] obtain t1 where t1:
    "trace s1 = trace s @ t1" "stdout s1 = stdout s"
    "\<forall>x\<in>set t1. is_load_call (fst x) \<and> \<not> is_pickle_load x"
    "\<forall>x\<in>set t1. \<forall>df na imp dich col. fst x = PreprocessData df na imp dich col \<longrightarrow>
              na = PyFinite False 1 (- 1) \<and> imp = ''drop'' \<and> dich = ''median'' \<and> col = ''Y11_Q57''"
    by (elim exE conjE) (rule that)
  from load_graph_log[OF b] obtain t2 where t2:
    "trace s' = trace s1 @ t2" "stdout s' = stdout s1"
    "\<forall>x\<in>set t2. is_load_call (fst x)"
    "\<forall>x\<in>set t2. \<forall>df na imp dich col. fst x \<noteq> PreprocessData df na imp dich col"
    "length (filter is_pickle_load t2) \<le> 1"
    "\<exists>c. (c, Some e) \<in> set t2"
    by (elim exE conjE) blast
  from t1(3) have "filter is_pickle_load t1 = []" by (simp add: filter_empty_conv)
  with t1 t2 show ?thesis
    by (intro exI[of _ "t1 @ t2"]) auto
qed

lemma loaders_returned:
  assumes "load_data L s = (Inr df, s1)" "load_graph L s1 = (Inr g, s2)"
  shows "\<exists>t. trace s2 = trace s @ t \<and> stdout s2 = stdout s \<and>
           (\<forall>x\<in>set t. is_load_call (fst x) \<and> snd x = None) \<and>
           length (filter is_pickle_load t) = 1 \<and>
           (\<forall>x\<in>set t. \<forall>df na imp dich col. fst x = PreprocessData df na imp dich col \<longrightarrow>
              na = PyFinite False 1 (- 1) \<and> imp = ''drop'' \<and> dich = ''median'' \<and> col = ''Y11_Q57'')"
proof -
  from load_data_log[OF assms(1)] obtain t1 where t1:
    "trace s1 = trace s @ t1" "stdout s1 = stdout s" "t1 \<noteq> []"
    "\<forall>x\<in>set t1. is_load_call (fst x) \<and> \<not> is_pickle_load x"
    "\<forall>x\<in>set (butlast t1). snd x = None" "snd (last t1) = outcome (Inr df :: exn + 'a)"
    "\<forall>x\<in>set t1. \<forall>df na imp dich col. fst x = PreprocessData df na imp dich col \<longrightarrow>
              na = PyFinite False 1 (- 1) \<and> imp = ''drop'' \<and> dich = ''median'' \<and> col = ''Y11_Q57''"
    by (elim exE conjE) (rule that)
  from t1(6) have "snd (last t1) = None" by (simp add: outcome_def)
  from all_returned[OF t1(3,5) this] have ok1: "\<forall>x\<in>set t1. snd x = None" .
  from load_graph_log[OF assms(2)] obtain t2 where t2:
    "trace s2 = trace s1 @ t2" "stdout s2 = stdout s1"
    "\<forall>x\<in>set t2. is_load_call (fst x)"
    "\<forall>x\<in>set t2. \<forall>df na imp dich col. fst x \<noteq> PreprocessData df na imp dich col"
    "length (filter is_pickle_load t2) = 1"
    "\<forall>x\<in>set t2. snd x = None"
    by (elim exE conjE) blast
  from t1(4) have "filter is_pickle_load t1 = []" by (simp add: filter_empty_conv)
  with t1 t2 ok1 show ?thesis
    by (intro exI[of _ "t1 @ t2"]) auto
qed

lemma pickle_load_is_load_call: "is_pickle_load x \<Longrightarrow> is_load_call (fst x)"
  by (cases x; cases "fst x") auto

lemma estimate_effects_calls:
  assumes "estimate_effects L df graph s = (res, s')" "trace s' = trace s @ t"
  shows "\<forall>x\<in>set t. \<not> is_load_call (fst x)"
  using estimate_effects_cases[OF assms(1)]
proof (elim disjE exE conjE)
  fix t0 c e
  assume "trace s' = trace s @ t0 @ [(c, Some e)]" "\<not> is_load_call c"
    "\<forall>x\<in>set t0. snd x = None \<and> \<not> is_method_call (fst x) \<and> \<not> is_load_call (fst x)"
  with assms(2) show ?thesis by auto
next
  fix dot gs model estimand s0
  assume s0: "trace s0 = trace s @ [(ToPydot graph, None), (ToString dot, None),
              (CausalModelInit df TREATMENT OUTCOME gs, None), (IdentifyEffect model, None)]"
    and loop: "estimate_loop L model estimand methods [] s0 = (res, s')"
  from estimate_loop_log[OF loop] obtain t2 where
    "trace s' = trace s0 @ t2" "\<forall>x\<in>set t2. is_method_call (fst x)"
    by (elim exE conjE) (rule that)
  with s0 assms(2) load_call_not_method_call show ?thesis by fastforce
qed

lemma main_log:
  assumes run: "main L s = (res, s')"
  shows "\<exists>t. trace s' = trace s @ t \<and>
     ((res = Inr ()) \<longleftrightarrow>
        (\<forall>x\<in>set t. \<forall>e. snd x = Some e \<longrightarrow> is_method_call (fst x) \<and> is_Exception e)) \<and>
     length (filter is_pickle_load t) \<le> 1 \<and>
     (res = Inr () \<or> (\<exists>x\<in>set t. \<not> is_load_call (fst x)) \<longrightarrow>
        length (filter is_pickle_load t) = 1) \<and>
     (\<forall>x\<in>set t. \<forall>df na imp dich col. fst x = PreprocessData df na imp dich col \<longrightarrow>
        na = PyFinite False 1 (- 1) \<and> imp = ''drop'' \<and> dich = ''median'' \<and> col = ''Y11_Q57'') \<and>
     (res = Inr () \<longrightarrow>
        (\<exists>results. map fst results = methods \<and>
           stdout s' = stdout s @ ''Estimation results (ATE):'' #
             map (\<lambda>(name, val). report_line name val) results \<and>
           (\<forall>x\<in>set (method_failures None t). map_of results (fst x) = Some PyNaN))) \<and>
     (\<forall>e. res = Inl e \<longrightarrow> stdout s' = stdout s) \<and>
     (\<forall>x\<in>set t. \<forall>e. snd x = Some e \<and> is_load_call (fst x) \<longrightarrow>
        (\<exists>e'. res = Inl e') \<and> (\<forall>y\<in>set t. is_load_call (fst y)))"
proof -
  from main_cases[OF run] consider
    (loading) e where "(load_data L s = (Inl e, s')) \<or>
           (\<exists>df s1. load_data L s = (Inr df, s1) \<and> load_graph L s1 = (Inl e, s'))" "res = Inl e"
  | (estimating) df s1 g s2 r s3 where "load_data L s = (Inr df, s1)"
      "load_graph L s1 = (Inr g, s2)" "estimate_effects L df g s2 = (r, s3)"
      "case r of Inl e \<Rightarrow> res = Inl e \<and> s' = s3
        | Inr results \<Rightarrow> res = Inr () \<and>
            s' = s3\<lparr>stdout := stdout s3 @ ''Estimation results (ATE):'' #
                     map (\<lambda>(name, val). report_line name val) results\<rparr>"
    by (elim disjE exE conjE) (blast, blast, force, force)
  then show ?thesis
  proof cases
    case loading
    from loaders_failed[OF loading(1)] obtain t where t:
      "trace s' = trace s @ t" "stdout s' = stdout s"
      "\<forall>x\<in>set t. is_load_call (fst x)"
      "length (filter is_pickle_load t) \<le> 1"
      "\<forall>x\<in>set t. \<forall>df na imp dich col. fst x = PreprocessData df na imp dich col \<longrightarrow>
          na = PyFinite False 1 (- 1) \<and> imp = ''drop'' \<and> dich = ''median'' \<and> col = ''Y11_Q57''"
      "\<exists>c. (c, Some e) \<in> set t"
      by (elim exE conjE) (rule that; blast)
    from t(6) obtain c where c: "(c, Some e) \<in> set t" ..
    with t(3) have "is_load_call c" by auto
    then have "\<not> is_method_call c" by (rule load_call_not_method_call)
    with c have bad: "\<exists>x\<in>set t. \<exists>e. snd x = Some e \<and> \<not> (is_method_call (fst x) \<and> is_Exception e)"
      by force
    show ?thesis
      apply (rule exI[of _ t])
      apply (intro conjI)
      subgoal by (rule t(1))
      subgoal using bad loading(2) by auto
      subgoal by (rule t(4))
      subgoal using t(3) loading(2) by auto
      subgoal by (rule t(5))
      subgoal using loading(2) by simp
      subgoal using loading(2) t(2) by simp
      subgoal using loading(2) t(3) by simp
      done
  next
    case estimating
    from loaders_returned[OF estimating(1,2)] obtain tl where tl:
      "trace s2 = trace s @ tl" "stdout s2 = stdout s"
      "\<forall>x\<in>set tl. is_load_call (fst x) \<and> snd x = None"
      "length (filter is_pickle_load tl) = 1"
      "\<forall>x\<in>set tl. \<forall>df na imp dich col. fst x = PreprocessData df na imp dich col \<longrightarrow>
          na = PyFinite False 1 (- 1) \<and> imp = ''drop'' \<and> dich = ''median'' \<and> col = ''Y11_Q57''"
      by (elim exE conjE) (rule that)
    from estimate_effects_log[OF estimating(3)] obtain te where te:
      "trace s3 = trace s2 @ te" "stdout s3 = stdout s2"
      "\<forall>results. r = Inr results \<longrightarrow> attempted te = methods \<and> map fst results = methods \<and>
        (\<forall>x\<in>set (method_failures None te). map_of results (fst x) = Some PyNaN)"
      "(\<exists>results. r = Inr results) \<longleftrightarrow>
        (\<forall>x\<in>set te. \<forall>e. snd x = Some e \<longrightarrow> is_method_call (fst x) \<and> is_Exception e)"
      by (elim exE conjE) (rule that)
    from estimate_effects_calls[OF estimating(3) te(1)]
    have nl: "\<forall>x\<in>set te. \<not> is_load_call (fst x)" .
    have tr: "trace s' = trace s @ tl @ te"
      using estimating(4) te(1) tl(1) by (auto split: sum.splits)
    have nm: "\<forall>x\<in>set tl. \<not> is_method_call (fst x)"
      using tl(3) load_call_not_method_call by blast
    have mf: "method_failures None (tl @ te) = method_failures None te"
      by (simp add: method_failures_append method_failures_no_method_call[OF nm]
          foldl_current_method_no_method_call[OF nm])
    have pk: "filter is_pickle_load te = []"
      using nl pickle_load_is_load_call by (auto simp: filter_empty_conv)
    have res: "(res = Inr ()) \<longleftrightarrow> (\<exists>results. r = Inr results)"
      using estimating(4) by (cases r) auto
    show ?thesis
      apply (rule exI[of _ "tl @ te"])
      apply (intro conjI)
      subgoal by (rule tr)
      subgoal unfolding res te(4) using tl(3) by auto
      subgoal using tl(4) pk by simp
      subgoal using tl(4) pk by simp
      subgoal using tl(5) nl by auto
      subgoal unfolding mf using estimating(4) te(2,3) tl(2) by (cases r) auto
      subgoal using estimating(4) te(2) tl(2) by (cases r) auto
      subgoal using tl(3) nl by auto
      done
  qed
qed

lemma call_frame:
  assumes "call c f s = (r, s')" "\<forall>w. obs (snd (f w)) = obs w"
  shows "obs (world s') = obs (world s)"
  using assms by (auto simp: call_def split: prod.splits) (metis snd_conv)

lemma estimate_one_frame:
  assumes "leaves_unchanged obs L df graph" "m \<in> set methods"
    "estimate_one L model estimand m r s = (res, s')"
  shows "obs (world s') = obs (world s)"
proof -
  have a: "\<forall>w. obs (snd (estimate_effect L model estimand m w)) = obs w"
    and b: "\<forall>est w. obs (snd (value_attr L est w)) = obs w"
    and c: "\<forall>v w. obs (snd (float_conv L v w)) = obs w"
    using assms(1,2) by (auto simp: leaves_unchanged_def)
  show ?thesis
    using assms(3)
    unfolding estimate_one_def try_except_Exception_def seq_def ret_def
    by (auto split: prod.splits sum.splits if_splits
        dest!: call_frame[where obs = obs] simp: a b c)
qed

lemma estimate_loop_frame_world:
  "leaves_unchanged obs L df graph \<Longrightarrow> set ms \<subseteq> set methods \<Longrightarrow>
   estimate_loop L model estimand ms r s = (res, s') \<Longrightarrow>
     obs (world s') = obs (world s)"
proof (induction ms arbitrary: r s)
  case Nil
  then show ?case by (simp add: ret_def)
next
  case (Cons m ms)
  from Cons.prems(2) have m: "m \<in> set methods" and ms: "set ms \<subseteq> set methods" by auto
  from Cons.prems(3) consider
    (abort) e where "estimate_one L model estimand m r s = (Inl e, s')"
  | (continue) r1 s1 where "estimate_one L model estimand m r s = (Inr r1, s1)"
      "estimate_loop L model estimand ms r1 s1 = (res, s')"
    by (auto simp: seq_result)
  then show ?case
  proof cases
    case abort
    then show ?thesis by (rule estimate_one_frame[OF Cons.prems(1) m])
  next
    case continue
    from estimate_one_frame[OF Cons.prems(1) m continue(1)]
      Cons.IH[OF Cons.prems(1) ms continue(2)]
    show ?thesis by simp
  qed
qed

lemma estimate_effects_frame:
  assumes "leaves_unchanged obs L df graph" "estimate_effects L df graph s = (res, s')"
  shows "obs (world s') = obs (world s)"
proof -
  have a: "\<forall>w. obs (snd (to_pydot L graph w)) = obs w"
    and b: "\<forall>d w. obs (snd (to_string L d w)) = obs w"
    and c: "\<forall>gs w. obs (snd (CausalModel L df TREATMENT OUTCOME gs w)) = obs w"
    and d: "\<forall>model w. obs (snd (identify_effect L model w)) = obs w"
    using assms(1) by (auto simp: leaves_unchanged_def)
  have sub: "set methods \<subseteq> set methods" by simp
  show ?thesis
    using assms(2)
    unfolding estimate_effects_def seq_def
    by (auto split: prod.splits sum.splits
        dest!: call_frame[where obs = obs] estimate_loop_frame_world[OF assms(1) sub]
        simp: a b c d)
qed

lemma decimal_digits: "set (decimal n) \<subseteq> set ''0123456789''"
proof (induction n rule: decimal.induct)
  case (1 n)
  have d: "digit_char k \<in> set ''0123456789''" if "k < 10" for k
    using that unfolding digit_char_def by (intro nth_mem) simp
  show ?case
  proof (cases "n < 10")
    case True
    then show ?thesis using d[of n] by (subst decimal.simps) simp
  next
    case False
    with 1 have "set (decimal (n div 10)) \<subseteq> set ''0123456789''" by simp
    moreover have "digit_char (n mod 10) \<in> set ''0123456789''" by (rule d) simp
    ultimately show ?thesis using False by (subst decimal.simps) simp
  qed
qed

lemma decimal_nonempty: "decimal n \<noteq> []"
  by (subst decimal.simps) simp

lemma decimal_length: "n < 10 ^ k \<Longrightarrow> 0 < k \<Longrightarrow> length (decimal n) \<le> k"
proof (induction n arbitrary: k rule: decimal.induct)
  case (1 n)
  show ?case
  proof (cases "n < 10")
    case True
    then show ?thesis using 1(3) by (subst decimal.simps) simp
  next
    case False
    with 1(2,3) obtain j where k: "k = Suc j" "0 < j"
      by (cases k; cases "k - 1") auto
    with 1(2) have "n div 10 < 10 ^ j" by (simp add: less_mult_imp_div_less mult.commute)
    from 1(1)[OF False this k(2)] have "length (decimal (n div 10)) \<le> j" .
    then show ?thesis using False k by (subst decimal.simps) simp
  qed
qed

lemma frac4_shape: "k < 10000 \<Longrightarrow> length (frac4 k) = 4 \<and> set (frac4 k) \<subseteq> set ''0123456789''"
proof -
  assume "k < 10000"
  then have "length (decimal k) \<le> 4" using decimal_length[of k 4] by simp
  moreover have "set (decimal k) \<subseteq> set ''0123456789''" by (rule decimal_digits)
  ultimately show ?thesis unfolding frac4_def by auto
qed

lemma digit_char_value: "k < 10 \<Longrightarrow> (of_char (digit_char k) :: nat) = 48 + k"
proof -
  assume "k < 10"
  then consider "k = 0" | "k = 1" | "k = 2" | "k = 3" | "k = 4" | "k = 5" | "k = 6" | "k = 7"
    | "k = 8" | "k = 9" by atomize_elim arith
  then show ?thesis by cases (simp_all add: digit_char_def)
qed

lemma digits_value_snoc: "digits_value (ds @ [c]) = 10 * digits_value ds + (of_char c - 48)"
  by (simp add: digits_value_def)

lemma digits_value_decimal: "digits_value (decimal n) = n"
proof (induction n rule: decimal.induct)
  case (1 n)
  show ?case
  proof (cases "n < 10")
    case True
    then show ?thesis
      by (subst decimal.simps) (simp add: digits_value_def digit_char_value)
  next
    case False
    with 1 have "digits_value (decimal (n div 10)) = n div 10" by simp
    then show ?thesis using False
      by (subst decimal.simps) (simp add: digits_value_snoc digit_char_value)
  qed
qed

lemma digits_value_zeros: "digits_value (replicate k CHR ''0'' @ ds) = digits_value ds"
proof -
  have "foldl (\<lambda>acc c. 10 * acc + (of_char c - 48)) 0 (replicate k CHR ''0'') = (0::nat)"
    by (induction k) simp_all
  then show ?thesis by (simp add: digits_value_def)
qed

lemma digits_value_frac4: "digits_value (frac4 k) = k"
  by (simp add: frac4_def digits_value_zeros digits_value_decimal)

lemma scaled4_rounds:
  "rounds_half_even (scaled4 m e) (m * 10000 * 2 ^ nat e) (2 ^ nat (- e))"
proof (cases "0 \<le> e")
  case True
  then have "nat (- e) = 0" by simp
  with True show ?thesis by (simp add: scaled4_def rounds_half_even_def)
next
  case False
  define d :: nat where "d = 2 ^ nat (- e)"
  define n :: nat where "n = m * 10000"
  define q where "q = n div d"
  define r where "r = n mod d"
  have dpos: "0 < d" by (simp add: d_def)
  have n: "int n = int q * int d + int r"
    unfolding q_def r_def by (metis div_mult_mod_eq of_nat_add of_nat_mult)
  have r: "r < d" unfolding r_def using dpos by simp
  from False have e0: "nat e = 0" by simp
  have s: "scaled4 m e = (if d < 2 * r then q + 1 else if 2 * r < d then q
       else if even q then q else q + 1)"
    using False by (simp add: scaled4_def Let_def d_def n_def q_def r_def)
  have goal: "rounds_half_even (scaled4 m e) n d"
    unfolding s rounds_half_even_def using n r
    by (auto simp: algebra_simps)
  then show ?thesis by (simp add: e0 n_def d_def)
qed

lemma format_4f_finite_value:
  "\<exists>ip fp. format_4f (PyFinite neg m e) = (if neg then ''-'' else []) @ ip @ ''.'' @ fp \<and>
     ip \<noteq> [] \<and> set ip \<subseteq> set ''0123456789'' \<and>
     length fp = 4 \<and> set fp \<subseteq> set ''0123456789'' \<and>
     rounds_half_even (digits_value ip * 10000 + digits_value fp)
       (m * 10000 * 2 ^ nat e) (2 ^ nat (- e))"
proof -
  have "scaled4 m e mod 10000 < 10000" by simp
  from frac4_shape[OF this] decimal_digits[of "scaled4 m e div 10000"]
    decimal_nonempty[of "scaled4 m e div 10000"] scaled4_rounds[of m e]
  show ?thesis
    by (intro exI[of _ "decimal (scaled4 m e div 10000)"] exI[of _ "frac4 (scaled4 m e mod 10000)"])
       (simp add: digits_value_decimal digits_value_frac4)
qed

lemmas format_defs =
  report_line_def ljust40_def scaled4_def frac4_def digit_char_def decimal.simps Let_def

lemma flaky_main_run:
  "main (sample_lib None None None flaky) (init world0) =
     (Inr (),
      \<lparr>world = (19, [(''Y11_Q57'', ''Y11_MWIndex'')]),
       trace =
         [(ChooseColumns, None),
          (PreprocessData SDf (PyFinite False 1 (- 1)) ''drop'' ''median'' ''Y11_Q57'', None),
          (OpenRb ''graphs/full_causal.gpickle'', None),
          (PickleLoad SFile, None), (FileExit SFile, None),
          (ToPydot SGraph, None), (ToString SDot, None),
          (CausalModelInit SDf ''Y11_Q57'' ''Y11_MWIndex'' ''digraph G {}'', None),
          (IdentifyEffect SModel, None),
          (EstimateEffect SModel SEstimand ''backdoor.propensity_score_matching'', None),
          (ValueAttr (SEst (Some (PyFinite True 5 (- 2)))), None),
          (FloatConv (SVal (Some (PyFinite True 5 (- 2)))), None),
          (EstimateEffect SModel SEstimand ''backdoor.propensity_score_weighting'',
             Some (Exception ''LinAlgError'')),
          (EstimateEffect SModel SEstimand ''backdoor.propensity_score_stratification'', None),
          (ValueAttr (SEst None), None),
          (FloatConv (SVal None), Some (Exception ''TypeError'')),
          (EstimateEffect SModel SEstimand ''backdoor.linear_regression'', None),
          (ValueAttr (SEst (Some (PyFinite True 5 (- 2)))), None),
          (FloatConv (SVal (Some (PyFinite True 5 (- 2)))), None)],
       stdout =
         [''Estimation results (ATE):'',
          ''  backdoor.propensity_score_matching       -1.2500'',
          ''  backdoor.propensity_score_weighting      nan'',
          ''  backdoor.propensity_score_stratification nan'',
          ''  backdoor.linear_regression               -1.2500'']\<rparr>)"
  by (simp add: run_defs format_defs) (simp add: eval_nat_numeral)

lemma mixed_main_run:
  "main (sample_lib None None None mixed) (init world0) =
     (Inr (),
      \<lparr>world = (19, [(''Y11_Q57'', ''Y11_MWIndex'')]),
       trace =
         [(ChooseColumns, None),
          (PreprocessData SDf (PyFinite False 1 (- 1)) ''drop'' ''median'' ''Y11_Q57'', None),
          (OpenRb ''graphs/full_causal.gpickle'', None),
          (PickleLoad SFile, None), (FileExit SFile, None),
          (ToPydot SGraph, None), (ToString SDot, None),
          (CausalModelInit SDf ''Y11_Q57'' ''Y11_MWIndex'' ''digraph G {}'', None),
          (IdentifyEffect SModel, None),
          (EstimateEffect SModel SEstimand ''backdoor.propensity_score_matching'', None),
          (ValueAttr (SEst (Some (PyFinite True 1 (- 5)))), None),
          (FloatConv (SVal (Some (PyFinite True 1 (- 5)))), None),
          (EstimateEffect SModel SEstimand ''backdoor.propensity_score_weighting'',
             Some (Exception ''LinAlgError'')),
          (EstimateEffect SModel SEstimand ''backdoor.propensity_score_stratification'', None),
          (ValueAttr (SEst (Some (PyInf False))), None),
          (FloatConv (SVal (Some (PyInf False))), None),
          (EstimateEffect SModel SEstimand ''backdoor.linear_regression'', None),
          (ValueAttr (SEst (Some (PyFinite False 7 (- 7)))), None),
          (FloatConv (SVal (Some (PyFinite False 7 (- 7)))), None)],
       stdout =
         [''Estimation results (ATE):'',
          ''  backdoor.propensity_score_matching       -0.0312'',
          ''  backdoor.propensity_score_weighting      nan'',
          ''  backdoor.propensity_score_stratification inf'',
          ''  backdoor.linear_regression               0.0547'']\<rparr>)"
  by (simp add: run_defs format_defs) (simp add: eval_nat_numeral)



lemma sample_lib_leaves_graph_unchanged:
  "leaves_unchanged snd (sample_lib data_fail graph_fail model_fail meth) df graph"
  by (auto simp: leaves_unchanged_def sample_lib_def fail_or_def tick_def
      split: option.splits sum.splits sample_obj.splits)

lemma flaky_load_data:
  "load_data (sample_lib None None None flaky) (init world0) =
     (Inr SDf,
      \<lparr>world = (2, [(''Y11_Q57'', ''Y11_MWIndex'')]),
       trace =
         [(ChooseColumns, None),
          (PreprocessData SDf (PyFinite False 1 (- 1)) ''drop'' ''median'' ''Y11_Q57'', None)],
       stdout = []\<rparr>)"
  by (simp add: run_defs)

lemma estimate_effects_serialises_first:
  assumes "estimate_effects L df graph s = (res, s')"
  shows "\<exists>out t. trace s' = trace s @ (ToPydot graph, out) # t"
  using assms
  unfolding estimate_effects_def seq_def call_def
  by (auto split: prod.splits sum.splits dest!: estimate_loop_log)

lemma load_graph_exact:
  assumes "load_graph L s = (res, s')"
  shows "(\<forall>e w1. open_rb L GRAPH_PATH (world s) = (Inl e, w1) \<longrightarrow>
            res = Inl e \<and> trace s' = trace s @ [(OpenRb GRAPH_PATH, Some e)]) \<and>
         (\<forall>f w1. open_rb L GRAPH_PATH (world s) = (Inr f, w1) \<longrightarrow>
            (\<exists>out. trace s' = trace s @
               [(OpenRb GRAPH_PATH, None),
                (PickleLoad f, outcome (fst (pickle_load L f w1))),
                (FileExit f, out)]) \<and>
            (\<forall>g. res = Inr g \<longrightarrow> (\<exists>w2. pickle_load L f w1 = (Inr g, w2))))"
  using assms
  unfolding load_graph_def seq_def call_def ret_def outcome_def
  by (auto split: prod.splits sum.splits)

lemma main_trace:
  assumes "main L s = (res, s')"
  shows "(\<exists>e. load_data L s = (Inl e, s')) \<or>
         (\<exists>df s1 e. load_data L s = (Inr df, s1) \<and> load_graph L s1 = (Inl e, s')) \<or>
         (\<exists>df s1 g s2 r s3. load_data L s = (Inr df, s1) \<and> load_graph L s1 = (Inr g, s2) \<and>
            estimate_effects L df g s2 = (r, s3) \<and> trace s' = trace s3)"
  using main_cases[OF assms] by (elim disjE exE conjE) (blast, blast, blast, force)

lemma load_data_no_pickle:
  assumes "load_data L s = (res, s')"
  shows "filter is_pickle_load (trace s') = filter is_pickle_load (trace s)"
proof -
  from load_data_log[OF assms] obtain t where
    "trace s' = trace s @ t" "\<forall>x\<in>set t. is_load_call (fst x) \<and> \<not> is_pickle_load x"
    by (elim exE conjE) (rule that, auto)
  then show ?thesis by (simp add: filter_none)
qed

lemma estimate_effects_after_setup:
  assumes "estimate_effects L df graph s = (res, s')"
    "to_pydot L graph (world s) = (Inr dot, w1)" "to_string L dot w1 = (Inr gs, w2)"
  shows "\<exists>t. trace s' = trace s @
            [(ToPydot graph, None), (ToString dot, None),
             (CausalModelInit df ''Y11_Q57'' ''Y11_MWIndex'' gs,
                outcome (fst (CausalModel L df ''Y11_Q57'' ''Y11_MWIndex'' gs w2)))] @ t \<and>
           (\<forall>x\<in>set t. is_identification x \<or> is_method_call (fst x))"
proof -
  note su = estimate_effects_setup[OF assms(1), unfolded TREATMENT_def OUTCOME_def]
  obtain r3 w3 where p3: "CausalModel L df ''Y11_Q57'' ''Y11_MWIndex'' gs w2 = (r3, w3)"
    by (metis surj_pair)
  show ?thesis
  proof (cases r3)
    case (Inl e)
    with su assms(2,3) p3 show ?thesis
      by (intro exI[of _ "[]"]) (simp add: outcome_def)
  next
    case model: (Inr model)
    obtain r4 w4 where p4: "identify_effect L model w3 = (r4, w4)" by (metis surj_pair)
    show ?thesis
    proof (cases r4)
      case (Inl e)
      with su assms(2,3) p3 p4 model show ?thesis
        by (intro exI[of _ "[(IdentifyEffect model, Some e)]"]) (simp add: outcome_def)
    next
      case (Inr estimand)
      with su assms(2,3) p3 p4 model have loop: "estimate_loop L model estimand methods []
              (s\<lparr>world := w4,
                 trace := trace s @ [(ToPydot graph, None), (ToString dot, None),
                     (CausalModelInit df ''Y11_Q57'' ''Y11_MWIndex'' gs, None),
                     (IdentifyEffect model, None)]\<rparr>) = (res, s')"
        by blast
      from estimate_loop_log[OF loop] obtain t where
        "trace s' = trace s @ [(ToPydot graph, None), (ToString dot, None),
                     (CausalModelInit df ''Y11_Q57'' ''Y11_MWIndex'' gs, None),
                     (IdentifyEffect model, None)] @ t"
        "\<forall>x\<in>set t. is_method_call (fst x)"
        by (elim exE conjE) (rule that, auto)
      with p3 model show ?thesis
        by (intro exI[of _ "(IdentifyEffect model, None) # t"]) (simp add: outcome_def)
    qed
  qed
qed

lemma estimate_effects_no_pickle:
  assumes "estimate_effects L df graph s = (res, s')"
  shows "\<exists>out t. trace s' = trace s @ (ToPydot graph, out) # t \<and>
           (\<forall>x\<in>set t. \<not> is_load_call (fst x)) \<and>
           filter is_pickle_load (trace s') = filter is_pickle_load (trace s)"
proof -
  from estimate_effects_serialises_first[OF assms] obtain out t where
    t: "trace s' = trace s @ (ToPydot graph, out) # t" by blast
  from estimate_effects_calls[OF assms t] have nl: "\<forall>x\<in>set ((ToPydot graph, out) # t). \<not> is_load_call (fst x)" .
  then have "filter is_pickle_load ((ToPydot graph, out) # t) = []"
    using pickle_load_is_load_call by (intro filter_none) blast
  with t nl show ?thesis by auto
qed

lemma main_pickle_loads:
  assumes m: "main L s = (res, s')" and s: "trace s = []"
  shows "(\<forall>e s1. load_data L s = (Inl e, s1) \<longrightarrow> filter is_pickle_load (trace s') = []) \<and>
      (\<forall>df s1 e w2. load_data L s = (Inr df, s1) \<and>
          open_rb L GRAPH_PATH (world s1) = (Inl e, w2) \<longrightarrow>
          filter is_pickle_load (trace s') = []) \<and>
      (\<forall>df s1 f w2. load_data L s = (Inr df, s1) \<and>
          open_rb L GRAPH_PATH (world s1) = (Inr f, w2) \<longrightarrow>
          filter is_pickle_load (trace s') = [(PickleLoad f, outcome (fst (pickle_load L f w2)))]) \<and>
      (\<forall>df s1 g s2. load_data L s = (Inr df, s1) \<and> load_graph L s1 = (Inr g, s2) \<longrightarrow>
          (\<exists>f w2 w3 out t.
             open_rb L GRAPH_PATH (world s1) = (Inr f, w2) \<and>
             pickle_load L f w2 = (Inr g, w3) \<and>
             trace s' = trace s2 @ (ToPydot g, out) # t \<and>
             (\<forall>x\<in>set t. \<not> is_load_call (fst x))))"
proof -
  from main_trace[OF m] consider
    (data) e where "load_data L s = (Inl e, s')"
  | (graph) df s1 e where "load_data L s = (Inr df, s1)" "load_graph L s1 = (Inl e, s')"
  | (est) df s1 g s2 r s3 where "load_data L s = (Inr df, s1)" "load_graph L s1 = (Inr g, s2)"
      "estimate_effects L df g s2 = (r, s3)" "trace s' = trace s3"
    by blast
  then show ?thesis
  proof cases
    case data
    from load_data_no_pickle[OF data] s have "filter is_pickle_load (trace s') = []" by simp
    with data show ?thesis by simp
  next
    case graph
    from load_data_no_pickle[OF graph(1)] s have p1: "filter is_pickle_load (trace s1) = []" by simp
    note lg = load_graph_exact[OF graph(2)]
    have a: "\<forall>e w2. open_rb L GRAPH_PATH (world s1) = (Inl e, w2) \<longrightarrow>
          filter is_pickle_load (trace s') = []"
      using lg p1 by auto
    have b: "\<forall>f w2. open_rb L GRAPH_PATH (world s1) = (Inr f, w2) \<longrightarrow>
          filter is_pickle_load (trace s') = [(PickleLoad f, outcome (fst (pickle_load L f w2)))]"
      using lg p1 by auto
    from a b graph show ?thesis by auto
  next
    case est
    from load_data_no_pickle[OF est(1)] s have p1: "filter is_pickle_load (trace s1) = []" by simp
    note lg = load_graph_exact[OF est(2)]
    obtain ro w2 where op: "open_rb L GRAPH_PATH (world s1) = (ro, w2)" by (metis surj_pair)
    from lg op obtain f where f: "ro = Inr f" by (cases ro) auto
    from lg op f obtain out w3 where l:
      "trace s2 = trace s1 @ [(OpenRb GRAPH_PATH, None),
                (PickleLoad f, outcome (fst (pickle_load L f w2))), (FileExit f, out)]"
      "pickle_load L f w2 = (Inr g, w3)"
      by blast
    from l(1) p1 have p2: "filter is_pickle_load (trace s2) =
        [(PickleLoad f, outcome (fst (pickle_load L f w2)))]" by simp
    from estimate_effects_no_pickle[OF est(3)] obtain out' t where t:
      "trace s3 = trace s2 @ (ToPydot g, out') # t" "\<forall>x\<in>set t. \<not> is_load_call (fst x)"
      "filter is_pickle_load (trace s3) = filter is_pickle_load (trace s2)"
      by blast
    have c: "filter is_pickle_load (trace s') = [(PickleLoad f, outcome (fst (pickle_load L f w2)))]"
      using t(3) p2 est(4) by simp
    have d: "\<exists>f w2 w3 out t.
             open_rb L GRAPH_PATH (world s1) = (Inr f, w2) \<and>
             pickle_load L f w2 = (Inr g, w3) \<and>
             trace s' = trace s2 @ (ToPydot g, out) # t \<and>
             (\<forall>x\<in>set t. \<not> is_load_call (fst x))"
      using op f l(2) t(1,2) est(4) by auto
    from c d op f est(1,2) show ?thesis by auto
  qed
qed

lemma call_shift:
  "call c f (shift_trace p s) = (case call c f s of (r, s') \<Rightarrow> (r, shift_trace p s'))"
  by (simp add: call_def shift_trace_def split: prod.splits)

lemma estimate_one_shift:
  "estimate_one L model estimand m r (shift_trace p s) =
     (case estimate_one L model estimand m r s of (res, s') \<Rightarrow> (res, shift_trace p s'))"
  unfolding estimate_one_def try_except_Exception_def seq_def ret_def
  by (simp add: call_shift split: prod.splits sum.splits)

lemma estimate_loop_shift:
  "estimate_loop L model estimand ms r (shift_trace p s) =
     (case estimate_loop L model estimand ms r s of (res, s') \<Rightarrow> (res, shift_trace p s'))"
proof (induction ms arbitrary: r s)
  case Nil
  then show ?case by (simp add: ret_def)
next
  case (Cons m ms)
  then show ?case
    by (simp add: seq_def estimate_one_shift split: prod.splits sum.splits)
qed

lemma estimate_effects_graph_only_serialised:
  assumes "to_pydot L g1 (world s) = to_pydot L g2 (world s)"
  shows "fst (estimate_effects L df g1 s) = fst (estimate_effects L df g2 s) \<and>
         world (snd (estimate_effects L df g1 s)) = world (snd (estimate_effects L df g2 s)) \<and>
         (\<exists>out t.
            trace (snd (estimate_effects L df g1 s)) = trace s @ (ToPydot g1, out) # t \<and>
            trace (snd (estimate_effects L df g2 s)) = trace s @ (ToPydot g2, out) # t)"
proof -
  obtain r1 w1 where p1: "to_pydot L g1 (world s) = (r1, w1)" by (metis surj_pair)
  with assms have p2: "to_pydot L g2 (world s) = (r1, w1)" by simp
  show ?thesis
  proof (cases r1)
    case (Inl e)
    with p1 p2 show ?thesis
      by (simp add: estimate_effects_def seq_def call_def outcome_def)
  next
    case (Inr dot)
    define K where "K = seq (call (ToString dot) (to_string L dot)) (\<lambda>gs.
       seq (call (CausalModelInit df TREATMENT OUTCOME gs) (CausalModel L df TREATMENT OUTCOME gs))
         (\<lambda>model.
       seq (call (IdentifyEffect model) (identify_effect L model)) (\<lambda>estimand.
       estimate_loop L model estimand methods [])))"
    have Kshift: "K (shift_trace p s0) = (case K s0 of (res, s') \<Rightarrow> (res, shift_trace p s'))"
      for p and s0 :: "('a, 'b) state"
      unfolding K_def seq_def
      by (simp add: call_shift estimate_loop_shift split: prod.splits sum.splits)
    define s0 where "s0 = s\<lparr>world := w1, trace := []\<rparr>"
    have e1: "estimate_effects L df g1 s = K (shift_trace (trace s @ [(ToPydot g1, None)]) s0)"
      using p1 Inr by (simp add: estimate_effects_def seq_def call_def outcome_def K_def
          shift_trace_def s0_def)
    have e2: "estimate_effects L df g2 s = K (shift_trace (trace s @ [(ToPydot g2, None)]) s0)"
      using p2 Inr by (simp add: estimate_effects_def seq_def call_def outcome_def K_def
          shift_trace_def s0_def)
    obtain res s' where k: "K s0 = (res, s')" by (metis surj_pair)
    show ?thesis
      unfolding e1 e2 Kshift k
      by (simp add: shift_trace_def)
  qed
qed

section \<open>Loading, reporting and the process\<close>



text \<open>
  Claim C6.  \<open>load_data\<close> passes the table of the column chooser to the preprocessor
  with \<^verbatim>\<open>na_threshold\<close> 0.5 (the float \<open>1 * 2 ^ - 1\<close>), \<^verbatim>\<open>impute_strategy\<close>
  \<^verbatim>\<open>"drop"\<close>, \<^verbatim>\<open>treatment_dichotomize_value\<close> \<^verbatim>\<open>"median"\<close> and
  \<^verbatim>\<open>treatment_column\<close> \<^verbatim>\<open>"Y11_Q57"\<close>, and returns or raises what that call
  returns or raises; when the column chooser raises, the preprocessor is not called.
  No run of \<open>main\<close> calls the preprocessor with any other options.
\<close>

theorem C6_preprocess_options:
  "(\<forall>res s'. load_data L (init w) = (res, s') \<longrightarrow>
      (\<forall>df w1. choose_columns L w = (Inr df, w1) \<longrightarrow>
         res = fst (preprocess_data L df (PyFinite False 1 (- 1)) ''drop'' ''median'' ''Y11_Q57'' w1) \<and>
         trace s' =
           [(ChooseColumns, None),
            (PreprocessData df (PyFinite False 1 (- 1)) ''drop'' ''median'' ''Y11_Q57'',
               outcome res)]) \<and>
      (\<forall>e w1. choose_columns L w = (Inl e, w1) \<longrightarrow>
         res = Inl e \<and> trace s' = [(ChooseColumns, Some e)])) \<and>
   (\<forall>res s'. main L (init w) = (res, s') \<longrightarrow>
      (\<forall>x\<in>set (trace s'). \<forall>df na imp dich col. fst x = PreprocessData df na imp dich col \<longrightarrow>
         na = PyFinite False 1 (- 1) \<and> imp = ''drop'' \<and> dich = ''median'' \<and> col = ''Y11_Q57''))"
proof (intro conjI allI impI)
  fix res s' df w1
  assume "load_data L (init w) = (res, s')" "choose_columns L w = (Inr df, w1)"
  then show "res = fst (preprocess_data L df (PyFinite False 1 (- 1)) ''drop'' ''median'' ''Y11_Q57'' w1)"
    and "trace s' =
           [(ChooseColumns, None),
            (PreprocessData df (PyFinite False 1 (- 1)) ''drop'' ''median'' ''Y11_Q57'',
               outcome res)]"
    unfolding load_data_def seq_def call_def ret_def init_def half_def TREATMENT_def
    by (auto simp: outcome_def split: prod.splits sum.splits)
next
  fix res s' e w1
  assume "load_data L (init w) = (res, s')" "choose_columns L w = (Inl e, w1)"
  then show "res = Inl e" and "trace s' = [(ChooseColumns, Some e)]"
    unfolding load_data_def seq_def call_def ret_def init_def
    by (auto simp: outcome_def split: prod.splits sum.splits)
next
  fix res s' assume "main L (init w) = (res, s')"
  from main_log[OF this]
  show "\<forall>x\<in>set (trace s'). \<forall>df na imp dich col. fst x = PreprocessData df na imp dich col \<longrightarrow>
         na = PyFinite False 1 (- 1) \<and> imp = ''drop'' \<and> dich = ''median'' \<and> col = ''Y11_Q57''"
    by (auto simp: init_def)
qed

theorem C6_preprocess_options_witness:
  "trace (snd (load_data (sample_lib None None None flaky) (init world0))) =
     [(ChooseColumns, None),
      (PreprocessData SDf (PyFinite False 1 (- 1)) ''drop'' ''median'' ''Y11_Q57'', None)]"
proof -
  let ?L = "sample_lib None None None flaky"
  have run: "load_data ?L (init world0) = (fst (load_data ?L (init world0)), snd (load_data ?L (init world0)))"
    by simp
  have cc: "choose_columns ?L world0 = (Inr SDf, (1, [(''Y11_Q57'', ''Y11_MWIndex'')]))"
    by (simp add: run_defs)
  from C6_preprocess_options[of ?L world0] run cc
  have "trace (snd (load_data ?L (init world0))) =
           [(ChooseColumns, None),
            (PreprocessData SDf (PyFinite False 1 (- 1)) ''drop'' ''median'' ''Y11_Q57'',
               outcome (fst (load_data ?L (init world0))))]"
    by blast
  then show ?thesis by (simp add: flaky_load_data outcome_def)
qed

text \<open>
  Claim C7.  The process exits with code 0 exactly when \<open>main\<close> returns, and that
  is exactly when every call that raised was a call made inside the \<^verbatim>\<open>try\<close> of the
  method loop and raised an exception of class \<^verbatim>\<open>Exception\<close>: however many of the
  four methods failed that way, the exit code is the same 0.  Otherwise the process
  ends with the exception that left \<open>main\<close>.
\<close>

theorem C7_exit_code:
  assumes "script L (init w) = (t, s')"
  shows "(t = Exit 0 \<longleftrightarrow> fst (main L (init w)) = Inr ()) \<and>
         (t = Exit 0 \<longleftrightarrow>
            (\<forall>x\<in>set (trace s'). \<forall>e. snd x = Some e \<longrightarrow> is_method_call (fst x) \<and> is_Exception e)) \<and>
         (t \<noteq> Exit 0 \<longrightarrow> (\<exists>e. t = Uncaught e \<and> fst (main L (init w)) = Inl e))"
proof -
  obtain res where m: "main L (init w) = (res, s')" and t: "t = (case res of Inl e \<Rightarrow> Uncaught e | Inr u \<Rightarrow> Exit 0)"
    using assms by (auto simp: script_def split: prod.splits sum.splits)
  from main_log[OF m] have iff: "(res = Inr ()) \<longleftrightarrow>
      (\<forall>x\<in>set (trace s'). \<forall>e. snd x = Some e \<longrightarrow> is_method_call (fst x) \<and> is_Exception e)"
    by (auto simp: init_def)
  have a: "t = Exit 0 \<longleftrightarrow> res = Inr ()" using t by (cases res) auto
  have b: "t \<noteq> Exit 0 \<longrightarrow> (\<exists>e. t = Uncaught e \<and> res = Inl e)" using t by (cases res) auto
  from a b iff m show ?thesis by simp
qed

theorem C7_exit_code_witness:
  "fst (script (sample_lib None None None flaky) (init world0)) = Exit 0 \<and>
   method_failures None (trace (snd (script (sample_lib None None None flaky) (init world0)))) =
     [(''backdoor.propensity_score_weighting'', Exception ''LinAlgError''),
      (''backdoor.propensity_score_stratification'', Exception ''TypeError'')]"
proof -
  let ?S = "script (sample_lib None None None flaky) (init world0)"
  have run: "?S = (fst ?S, snd ?S)" by simp
  have tr: "snd ?S = snd (main (sample_lib None None None flaky) (init world0))"
    by (simp add: script_def flaky_main_run)
  have only: "\<forall>x\<in>set (trace (snd ?S)). \<forall>e. snd x = Some e \<longrightarrow>
      is_method_call (fst x) \<and> is_Exception e"
    unfolding tr by (simp add: flaky_main_run)
  have mf: "method_failures None (trace (snd ?S)) =
     [(''backdoor.propensity_score_weighting'', Exception ''LinAlgError''),
      (''backdoor.propensity_score_stratification'', Exception ''TypeError'')]"
    unfolding tr by (simp add: flaky_main_run)
  from C7_exit_code[OF run] only have "fst ?S = Exit 0" by blast
  with mf show ?thesis by simp
qed

text \<open>
  Claim C8.  When \<open>main\<close> returns, standard output is the header line followed by
  one line for each entry of the mapping that \<open>estimate_effects\<close> returned in this
  run, in the order of the method list: two spaces, the method name padded on the right
  with spaces to width 40, a space, and the value under the format \<^verbatim>\<open>.4f\<close>.  Every
  value of the mapping is not-a-number or what \<^verbatim>\<open>float\<close> returned for the
  \<^verbatim>\<open>.value\<close> of that method's estimate, and a method that failed has the value
  not-a-number.  The format prints not-a-number as \<^verbatim>\<open>nan\<close>, the infinities as
  \<^verbatim>\<open>inf\<close> and \<^verbatim>\<open>-inf\<close>, and a finite value \<open>m * 2 ^ e\<close> as an optional minus
  sign, at least one integer digit, a point and exactly four fraction digits; read as a
  number of ten-thousandths, these digits are the exact value rounded to a nearest
  ten-thousandth, to the even one on a tie.
\<close>

theorem C8_report:
  assumes "main L (init w) = (Inr u, s')"
  shows "(\<exists>df s1 g s2 results s3.
            load_data L (init w) = (Inr df, s1) \<and> load_graph L s1 = (Inr g, s2) \<and>
            estimate_effects L df g s2 = (Inr results, s3) \<and>
            stdout s' = ''Estimation results (ATE):'' #
              map (\<lambda>(name, val).
                ''  '' @ name @ replicate (40 - length name) CHR '' '' @ '' '' @ format_4f val)
                results \<and>
            map fst results =
              [''backdoor.propensity_score_matching'',
               ''backdoor.propensity_score_weighting'',
               ''backdoor.propensity_score_stratification'',
               ''backdoor.linear_regression''] \<and>
            (\<forall>x\<in>set (method_failures None (trace s')). (fst x, PyNaN) \<in> set results) \<and>
            (\<exists>model estimand. \<forall>p\<in>set results. snd p = PyNaN \<or>
               (\<exists>est v w0 w1 w2 w3.
                  estimate_effect L model estimand (fst p) w0 = (Inr est, w1) \<and>
                  value_attr L est w1 = (Inr v, w2) \<and>
                  float_conv L v w2 = (Inr (snd p), w3)))) \<and>
         (\<forall>x\<in>set (method_failures None (trace s')).
            ''  '' @ fst x @ replicate (40 - length (fst x)) CHR '' '' @ '' nan''
              \<in> set (stdout s')) \<and>
         format_4f PyNaN = ''nan'' \<and>
         format_4f (PyInf False) = ''inf'' \<and>
         format_4f (PyInf True) = ''-inf'' \<and>
         (\<forall>neg m e. \<exists>ip fp.
            format_4f (PyFinite neg m e) = (if neg then ''-'' else []) @ ip @ ''.'' @ fp \<and>
            ip \<noteq> [] \<and> set ip \<subseteq> set ''0123456789'' \<and>
            length fp = 4 \<and> set fp \<subseteq> set ''0123456789'' \<and>
            rounds_half_even (digits_value ip * 10000 + digits_value fp)
              (m * 10000 * 2 ^ nat e) (2 ^ nat (- e)))"
proof -
  from main_cases[OF assms] obtain df s1 g s2 results s3 where run:
    "load_data L (init w) = (Inr df, s1)" "load_graph L s1 = (Inr g, s2)"
    "estimate_effects L df g s2 = (Inr results, s3)"
    "s' = s3\<lparr>stdout := stdout s3 @ ''Estimation results (ATE):'' #
                     map (\<lambda>(name, val). report_line name val) results\<rparr>"
    by auto
  from loaders_returned[OF run(1,2)] obtain tl where tl:
    "trace s2 = tl" "stdout s2 = []"
    "\<forall>x\<in>set tl. is_load_call (fst x) \<and> snd x = None"
    by (elim exE conjE) (rule that, auto simp: init_def)
  from estimate_effects_log[OF run(3)] obtain te where te:
    "trace s3 = trace s2 @ te" "stdout s3 = stdout s2"
    "map fst results = methods"
    "\<forall>x\<in>set (method_failures None te). map_of results (fst x) = Some PyNaN"
    by (elim exE conjE) (rule that, auto)
  have nm: "\<forall>x\<in>set tl. \<not> is_method_call (fst x)"
    using tl(3) load_call_not_method_call by blast
  have mf: "method_failures None (trace s') = method_failures None te"
    using run(4) te(1) tl(1)
    by (simp add: method_failures_append method_failures_no_method_call[OF nm]
        foldl_current_method_no_method_call[OF nm])
  have line: "(\<lambda>(name, val). report_line name val) =
      (\<lambda>(name, val). ''  '' @ name @ replicate (40 - length name) CHR '' '' @ '' '' @ format_4f val)"
    by (simp add: report_line_def ljust40_def fun_eq_iff)
  have out: "stdout s' = ''Estimation results (ATE):'' #
              map (\<lambda>(name, val).
                ''  '' @ name @ replicate (40 - length name) CHR '' '' @ '' '' @ format_4f val)
                results"
    using run(4) te(2) tl(2) by (simp add: line)
  have nan: "\<forall>x\<in>set (method_failures None (trace s')). (fst x, PyNaN) \<in> set results"
    unfolding mf using te(4) by (auto dest: map_of_SomeD)
  have keys: "map fst results =
              [''backdoor.propensity_score_matching'',
               ''backdoor.propensity_score_weighting'',
               ''backdoor.propensity_score_stratification'',
               ''backdoor.linear_regression'']"
    using te(3) by (simp add: methods_def)
  note vals = estimate_effects_values[OF run(3)]
  have first: "\<exists>df s1 g s2 results s3.
            load_data L (init w) = (Inr df, s1) \<and> load_graph L s1 = (Inr g, s2) \<and>
            estimate_effects L df g s2 = (Inr results, s3) \<and>
            stdout s' = ''Estimation results (ATE):'' #
              map (\<lambda>(name, val).
                ''  '' @ name @ replicate (40 - length name) CHR '' '' @ '' '' @ format_4f val)
                results \<and>
            map fst results =
              [''backdoor.propensity_score_matching'',
               ''backdoor.propensity_score_weighting'',
               ''backdoor.propensity_score_stratification'',
               ''backdoor.linear_regression''] \<and>
            (\<forall>x\<in>set (method_failures None (trace s')). (fst x, PyNaN) \<in> set results) \<and>
            (\<exists>model estimand. \<forall>p\<in>set results. snd p = PyNaN \<or>
               (\<exists>est v w0 w1 w2 w3.
                  estimate_effect L model estimand (fst p) w0 = (Inr est, w1) \<and>
                  value_attr L est w1 = (Inr v, w2) \<and>
                  float_conv L v w2 = (Inr (snd p), w3)))"
    apply (rule exI[of _ df], rule exI[of _ s1], rule exI[of _ g], rule exI[of _ s2],
        rule exI[of _ results], rule exI[of _ s3])
    using run(1,2,3) out keys nan vals by (intro conjI)
  have nanline: "\<forall>x\<in>set (method_failures None (trace s')).
            ''  '' @ fst x @ replicate (40 - length (fst x)) CHR '' '' @ '' nan''
              \<in> set (stdout s')"
  proof
    fix x assume "x \<in> set (method_failures None (trace s'))"
    with nan have "(fst x, PyNaN) \<in> set results" by simp
    then have "(\<lambda>(name, val).
                ''  '' @ name @ replicate (40 - length name) CHR '' '' @ '' '' @ format_4f val)
          (fst x, PyNaN) \<in> set (stdout s')"
      unfolding out by force
    then show "''  '' @ fst x @ replicate (40 - length (fst x)) CHR '' '' @ '' nan''
              \<in> set (stdout s')" by simp
  qed
  from first nanline format_4f_finite_value show ?thesis by simp
qed

theorem C8_report_witness:
  "stdout (snd (main (sample_lib None None None mixed) (init world0))) =
     [''Estimation results (ATE):'',
      ''  backdoor.propensity_score_matching       -0.0312'',
      ''  backdoor.propensity_score_weighting      nan'',
      ''  backdoor.propensity_score_stratification inf'',
      ''  backdoor.linear_regression               0.0547'']"
  using C8_report[OF mixed_main_run] by (simp add: mixed_main_run)

text \<open>
  Four decimal places are printed for finite values only.  In the run below
  stratification succeeds with the value infinity; its line of the report ends in
  \<^verbatim>\<open>inf\<close>, with no decimal place at all, although the method did not fail.
\<close>

theorem C8_infinite_value_printed_without_decimals:
  "fst (main (sample_lib None None None mixed) (init world0)) = Inr () \<and>
   method_failures None (trace (snd (main (sample_lib None None None mixed) (init world0)))) =
     [(''backdoor.propensity_score_weighting'', Exception ''LinAlgError'')] \<and>
   stdout (snd (main (sample_lib None None None mixed) (init world0))) ! 3 =
     ''  backdoor.propensity_score_stratification inf''"
  by (simp add: mixed_main_run)

text \<open>
  Claim C9.  No run of \<open>main\<close> calls \<^verbatim>\<open>pickle.load\<close> more than once.  It is not
  called when \<open>load_data\<close> or \<^verbatim>\<open>open\<close> raises; in every other run it is called
  exactly once, on the file that \<^verbatim>\<open>open\<close> returned, whatever happens later.  When
  \<open>load_graph\<close> returns, its result is the object that this one call returned, and it
  is this object that is serialised next; no loading call follows.  In
  \<open>estimate_effects\<close> the graph is the argument of the first call only, the
  serialisation; the string that comes out of it is what the \<^verbatim>\<open>CausalModel\<close>
  constructor receives, together with the data and the two column names, and all later
  calls are the identification and calls of the method loop.
  \<open>estimate_effects\<close> itself writes nothing: whatever of the world (the
  content of the graph object, say) these library calls leave unchanged is the same
  before and after \<open>estimate_effects\<close>, returned or raised.  And the graph
  object matters to \<open>estimate_effects\<close> through its serialisation only: on two
  graph objects that serialise alike it returns or raises the same, leaves the same world
  and makes the same calls, but for the argument of the serialisation.
\<close>

theorem C9_graph_loaded_once_and_unchanged:
  "(\<forall>res s'. main (L :: ('o, 'w) lib) (init w) = (res, s') \<longrightarrow>
      length (filter is_pickle_load (trace s')) \<le> 1 \<and>
      (\<forall>e s1. load_data L (init w) = (Inl e, s1) \<longrightarrow> filter is_pickle_load (trace s') = []) \<and>
      (\<forall>df s1 e w2. load_data L (init w) = (Inr df, s1) \<and>
          open_rb L ''graphs/full_causal.gpickle'' (world s1) = (Inl e, w2) \<longrightarrow>
          filter is_pickle_load (trace s') = []) \<and>
      (\<forall>df s1 f w2. load_data L (init w) = (Inr df, s1) \<and>
          open_rb L ''graphs/full_causal.gpickle'' (world s1) = (Inr f, w2) \<longrightarrow>
          filter is_pickle_load (trace s') =
            [(PickleLoad f, outcome (fst (pickle_load L f w2)))]) \<and>
      (\<forall>df s1 g s2. load_data L (init w) = (Inr df, s1) \<and> load_graph L s1 = (Inr g, s2) \<longrightarrow>
          (\<exists>f w2 w3 out t.
             open_rb L ''graphs/full_causal.gpickle'' (world s1) = (Inr f, w2) \<and>
             pickle_load L f w2 = (Inr g, w3) \<and>
             trace s' = trace s2 @ (ToPydot g, out) # t \<and>
             (\<forall>x\<in>set t. \<not> is_load_call (fst x))))) \<and>
   (\<forall>df graph s res s' dot w1 gs w2.
      estimate_effects L df graph s = (res, s') \<and>
      to_pydot L graph (world s) = (Inr dot, w1) \<and> to_string L dot w1 = (Inr gs, w2) \<longrightarrow>
        (\<exists>t. trace s' = trace s @
            [(ToPydot graph, None), (ToString dot, None),
             (CausalModelInit df ''Y11_Q57'' ''Y11_MWIndex'' gs,
                outcome (fst (CausalModel L df ''Y11_Q57'' ''Y11_MWIndex'' gs w2)))] @ t \<and>
           (\<forall>x\<in>set t. is_identification x \<or> is_method_call (fst x)))) \<and>
   (\<forall>df graph s res s'.
      leaves_unchanged obs L df graph \<and> estimate_effects L df graph s = (res, s') \<longrightarrow>
        obs (world s') = obs (world s)) \<and>
   (\<forall>df g1 g2 s. to_pydot L g1 (world s) = to_pydot L g2 (world s) \<longrightarrow>
      fst (estimate_effects L df g1 s) = fst (estimate_effects L df g2 s) \<and>
      world (snd (estimate_effects L df g1 s)) = world (snd (estimate_effects L df g2 s)) \<and>
      (\<exists>out t.
         trace (snd (estimate_effects L df g1 s)) = trace s @ (ToPydot g1, out) # t \<and>
         trace (snd (estimate_effects L df g2 s)) = trace s @ (ToPydot g2, out) # t))"
proof (intro conjI allI impI)
  fix res s' assume m: "main L (init w) = (res, s')"
  have tr0: "trace (init w :: ('o, 'w) state) = []" by (simp add: init_def)
  note pl = main_pickle_loads[OF m tr0, unfolded GRAPH_PATH_def]
  show "length (filter is_pickle_load (trace s')) \<le> 1"
  proof -
    obtain rd s1 where ld: "load_data L (init w) = (rd, s1)" by (metis surj_pair)
    show ?thesis
    proof (cases rd)
      case (Inl e)
      with pl ld show ?thesis by simp
    next
      case df: (Inr df)
      obtain ro w2 where op: "open_rb L ''graphs/full_causal.gpickle'' (world s1) = (ro, w2)"
        by (metis surj_pair)
      show ?thesis
      proof (cases ro)
        case (Inl e)
        with pl ld df op have "filter is_pickle_load (trace s') = []" by blast
        then show ?thesis by simp
      next
        case (Inr f)
        with pl ld df op have "filter is_pickle_load (trace s') =
            [(PickleLoad f, outcome (fst (pickle_load L f w2)))]" by blast
        then show ?thesis by simp
      qed
    qed
  qed
  show "\<And>e s1. load_data L (init w) = (Inl e, s1) \<Longrightarrow> filter is_pickle_load (trace s') = []"
    using pl by blast
  show "\<And>df s1 e w2. load_data L (init w) = (Inr df, s1) \<and>
          open_rb L ''graphs/full_causal.gpickle'' (world s1) = (Inl e, w2) \<Longrightarrow>
          filter is_pickle_load (trace s') = []"
    using pl by blast
  show "\<And>df s1 f w2. load_data L (init w) = (Inr df, s1) \<and>
          open_rb L ''graphs/full_causal.gpickle'' (world s1) = (Inr f, w2) \<Longrightarrow>
          filter is_pickle_load (trace s') =
            [(PickleLoad f, outcome (fst (pickle_load L f w2)))]"
    using pl by blast
  show "\<And>df s1 g s2. load_data L (init w) = (Inr df, s1) \<and> load_graph L s1 = (Inr g, s2) \<Longrightarrow>
          (\<exists>f w2 w3 out t.
             open_rb L ''graphs/full_causal.gpickle'' (world s1) = (Inr f, w2) \<and>
             pickle_load L f w2 = (Inr g, w3) \<and>
             trace s' = trace s2 @ (ToPydot g, out) # t \<and>
             (\<forall>x\<in>set t. \<not> is_load_call (fst x)))"
    using pl by blast
next
  fix df graph s res s' dot w1 gs w2
  assume "estimate_effects L df graph s = (res, s') \<and>
      to_pydot L graph (world s) = (Inr dot, w1) \<and> to_string L dot w1 = (Inr gs, w2)"
  then have a: "estimate_effects L df graph s = (res, s')"
    "to_pydot L graph (world s) = (Inr dot, w1)" "to_string L dot w1 = (Inr gs, w2)" by auto
  show "\<exists>t. trace s' = trace s @
            [(ToPydot graph, None), (ToString dot, None),
             (CausalModelInit df ''Y11_Q57'' ''Y11_MWIndex'' gs,
                outcome (fst (CausalModel L df ''Y11_Q57'' ''Y11_MWIndex'' gs w2)))] @ t \<and>
           (\<forall>x\<in>set t. is_identification x \<or> is_method_call (fst x))"
    by (rule estimate_effects_after_setup[OF a])
next
  fix df graph s res s'
  assume "leaves_unchanged obs L df graph \<and> estimate_effects L df graph s = (res, s')"
  then have a: "leaves_unchanged obs L df graph" and b: "estimate_effects L df graph s = (res, s')"
    by auto
  show "obs (world s') = obs (world s)"
    by (rule estimate_effects_frame[OF a b])
next
  fix df g1 g2 and s :: "('o, 'w) state"
  assume h: "to_pydot L g1 (world s) = to_pydot L g2 (world s)"
  note only = estimate_effects_graph_only_serialised[OF h, of df]
  show "fst (estimate_effects L df g1 s) = fst (estimate_effects L df g2 s)"
    using only by simp
  show "world (snd (estimate_effects L df g1 s)) = world (snd (estimate_effects L df g2 s))"
    using only by simp
  show "\<exists>out t.
         trace (snd (estimate_effects L df g1 s)) = trace s @ (ToPydot g1, out) # t \<and>
         trace (snd (estimate_effects L df g2 s)) = trace s @ (ToPydot g2, out) # t"
    using only by simp
qed

theorem C9_graph_loaded_once_and_unchanged_witness:
  "filter is_pickle_load (trace (snd (main (sample_lib None None None flaky) (init world0)))) =
     [(PickleLoad SFile, None)] \<and>
   snd (world (snd (estimate_effects (sample_lib None None None flaky) SDf SGraph (init world0)))) =
     [(''Y11_Q57'', ''Y11_MWIndex'')]"
proof -
  let ?L = "sample_lib None None None flaky"
  let ?M = "main ?L (init world0)"
  let ?R = "estimate_effects ?L SDf SGraph (init world0)"
  have runm: "?M = (fst ?M, snd ?M)" by simp
  have run: "?R = (fst ?R, snd ?R)" by simp
  have op: "open_rb ?L ''graphs/full_causal.gpickle'' (2, [(''Y11_Q57'', ''Y11_MWIndex'')]) =
      (Inr SFile, (3, [(''Y11_Q57'', ''Y11_MWIndex'')]))"
    by (simp add: run_defs)
  have pk: "outcome (fst (pickle_load ?L SFile (3, [(''Y11_Q57'', ''Y11_MWIndex'')]))) = None"
    by (simp add: run_defs)
  note c9 = C9_graph_loaded_once_and_unchanged[of ?L world0 snd]
  from c9[THEN conjunct1, rule_format, OF runm, THEN conjunct2, THEN conjunct2, THEN conjunct2,
      THEN conjunct1, rule_format, of SDf _ SFile "(3, [(''Y11_Q57'', ''Y11_MWIndex'')])"]
    flaky_load_data op pk
  have one: "filter is_pickle_load (trace (snd ?M)) = [(PickleLoad SFile, None)]"
    by simp
  from c9[THEN conjunct2, THEN conjunct2, THEN conjunct1, rule_format,
      OF conjI[OF sample_lib_leaves_graph_unchanged[of None None None flaky SDf SGraph] run]]
  have "snd (world (snd ?R)) = snd (world (init world0 :: (sample_obj, sample_world) state))" .
  with one show ?thesis by (simp add: init_def world0_def)
qed

end
